theory Spec2Isabelle
  imports Main
begin

section \<open>The mailer-service SDK: a shallow embedding\<close>

text \<open>
  The repository holds three revisions of one Go package \<open>mailersdk\<close>:
  \<^item> \<open>client.go\<close>: the client wraps the HMAC-signing client of \<open>go-pkg-utils/hmac\<close>;
    its definitions carry the suffix \<open>_hmac\<close>;
  \<^item> \<open>unnamed/part_000\<close>: plain HTTP, list calls forward a raw query string;
    suffix \<open>_raw\<close>;
  \<^item> \<open>unnamed/part_001\<close>: plain HTTP, list calls take a structured filter and the
    \<open>...WithQuery\<close> calls forward a raw query string; suffix \<open>_filt\<close>.
  \<open>APIError\<close>, \<open>IsAPIError\<close>, \<open>parseErrorResponse\<close>, \<open>statusIn\<close> and \<open>pathSeg\<close>
  are the same text in all three and are embedded once; \<open>Config\<close>, \<open>Client\<close> and
  \<open>NewClient\<close> are the same in the two plain revisions (the client's field is
  \<open>httpClient\<close> in one and \<open>client\<close> in the other) and are embedded once for both.

  Go strings and byte slices are \<open>string\<close> (a list of bytes). Go's \<open>int\<close> and
  \<open>time.Duration\<close> are \<open>int\<close>: the code only compares them with zero, copies them and
  prints them, so no overflow can occur. A Go return pair \<open>(*T, error)\<close> is a pair of
  options, \<open>None\<close> standing for \<open>nil\<close>.
\<close>

subsection \<open>Errors\<close>

text \<open>\<open>type APIError struct { StatusCode int; Message string; Body string }\<close>\<close>

record APIError =
  StatusCode :: int
  Message :: string
  Body :: string

text \<open>
  An error raised by a library outside the repository (\<open>net/http\<close>, \<open>encoding/json\<close>,
  \<open>io\<close>, \<open>go-pkg-utils/hmac\<close>). Only its text is kept.
\<close>

datatype ext_error = ExtError string

text \<open>
  The values of Go's \<open>error\<close> interface that the package produces:
  \<open>fmt.Errorf(s)\<close> without a verb, \<open>fmt.Errorf("%s: %w", s, err)\<close> which wraps \<open>err\<close>,
  a \<open>*APIError\<close>, and an error handed on unchanged from a library.
\<close>

datatype error =
    Errorf string
  | Wrapf string error
  | API APIError
  | Ext ext_error

text \<open>
  \<open>IsAPIError\<close>: \<open>errors.As\<close> walks the chain of wrapped errors and stops at the first
  \<open>*APIError\<close>. The argument is \<open>None\<close> for a nil error.
\<close>

fun errors_As_APIError :: "error \<Rightarrow> APIError option" where
  "errors_As_APIError (Errorf s) = None"
| "errors_As_APIError (Wrapf s e) = errors_As_APIError e"
| "errors_As_APIError (API a) = Some a"
| "errors_As_APIError (Ext x) = None"

definition IsAPIError :: "error option \<Rightarrow> APIError option \<times> bool" where
  "IsAPIError err =
     (case err of
        None \<Rightarrow> (None, False)
      | Some e \<Rightarrow> (case errors_As_APIError e of
                    Some apiErr \<Rightarrow> (Some apiErr, True)
                  | None \<Rightarrow> (None, False)))"

subsection \<open>Decimal printing (\<open>%d\<close> of \<open>fmt.Sprintf\<close>)\<close>

definition digit_char :: "nat \<Rightarrow> char" where
  "digit_char d = ''0123456789'' ! d"

function show_nat :: "nat \<Rightarrow> string" where
  "show_nat n = (if n < 10 then [digit_char n] else show_nat (n div 10) @ [digit_char (n mod 10)])"
  by pat_completeness auto
termination
  by (relation "measure id") auto

declare show_nat.simps [simp del]

definition show_int :: "int \<Rightarrow> string" where
  "show_int i = (if i < 0 then CHR ''-'' # show_nat (nat (- i)) else show_nat (nat i))"

text \<open>The text of an error, as its \<open>Error()\<close> method gives it.\<close>

definition APIError_Error :: "APIError \<Rightarrow> string" where
  "APIError_Error e =
     (if Message e \<noteq> []
      then ''mailer service returned status '' @ show_int (StatusCode e) @ '': '' @ Message e
      else ''mailer service returned status '' @ show_int (StatusCode e) @ '': '' @ Body e)"

fun error_text :: "error \<Rightarrow> string" where
  "error_text (Errorf s) = s"
| "error_text (Wrapf s e) = s @ '': '' @ error_text e"
| "error_text (API a) = APIError_Error a"
| "error_text (Ext (ExtError s)) = s"

subsection \<open>Building the API error from a response body\<close>

text \<open>
  The anonymous struct that \<open>parseErrorResponse\<close> decodes into, and its zero value.
\<close>

record errorResp =
  errorResp_Message :: string
  errorResp_Success :: bool
  errorResp_Status :: int
  errorResp_Error :: string

definition errorResp_zero :: errorResp where
  "errorResp_zero =
     \<lparr>errorResp_Message = [], errorResp_Success = False, errorResp_Status = 0,
      errorResp_Error = []\<rparr>"

text \<open>
  \<open>json.Unmarshal(body, &errorResp)\<close> belongs to Go's standard library. It is a parameter
  of the model: a function from the body and the struct before the call to the error it
  returns (\<open>None\<close> for nil) and the struct after the call.
\<close>

type_synonym unmarshal = "string \<Rightarrow> errorResp \<Rightarrow> ext_error option \<times> errorResp"

definition parseErrorResponse :: "unmarshal \<Rightarrow> int \<Rightarrow> string \<Rightarrow> APIError" where
  "parseErrorResponse json_Unmarshal statusCode body =
     (let bodyStr = body;
          (err, errorResp) = json_Unmarshal body errorResp_zero
      in if err = None \<and> (errorResp_Message errorResp \<noteq> [] \<or> errorResp_Error errorResp \<noteq> [])
         then (let errMessage = errorResp_Error errorResp;
                   errMessage = (if errMessage = [] then errorResp_Message errorResp
                                 else errMessage)
               in \<lparr>StatusCode = statusCode, Message = errMessage, Body = bodyStr\<rparr>)
         else \<lparr>StatusCode = statusCode, Message = bodyStr, Body = bodyStr\<rparr>)"

fun statusIn :: "int \<Rightarrow> int list \<Rightarrow> bool" where
  "statusIn code [] = False"
| "statusIn code (c # codes) = (if code = c then True else statusIn code codes)"

subsection \<open>URL escaping (\<open>net/url\<close>)\<close>

text \<open>
  \<open>url.PathEscape\<close> and \<open>url.QueryEscape\<close> belong to Go's standard library; both are
  \<open>escape(s, mode)\<close>, which decides byte by byte with \<open>shouldEscape(c, mode)\<close>. They are
  embedded from the library's text, for the two modes the package uses.
\<close>

datatype encoding = encodePathSegment | encodeQueryComponent

definition upperhex :: string where
  "upperhex = ''0123456789ABCDEF''"

definition shouldEscape :: "char \<Rightarrow> encoding \<Rightarrow> bool" where
  "shouldEscape c mode =
     (let n = (of_char c :: nat) in
      if (97 \<le> n \<and> n \<le> 122) \<or> (65 \<le> n \<and> n \<le> 90) \<or> (48 \<le> n \<and> n \<le> 57) then False
      else if c \<in> set ''-_.~'' then False
      else if c \<in> set ''$&+,/:;=?@'' then
        (case mode of
           encodePathSegment \<Rightarrow>
             c = CHR ''/'' \<or> c = CHR '';'' \<or> c = CHR '','' \<or> c = CHR ''?''
         | encodeQueryComponent \<Rightarrow> True)
      else True)"

fun escape :: "string \<Rightarrow> encoding \<Rightarrow> string" where
  "escape [] mode = []"
| "escape (c # s) mode =
     (if c = CHR '' '' \<and> mode = encodeQueryComponent then CHR ''+'' # escape s mode
      else if shouldEscape c mode
      then CHR ''%'' # upperhex ! (of_char c div 16) # upperhex ! (of_char c mod 16)
             # escape s mode
      else c # escape s mode)"

definition PathEscape :: "string \<Rightarrow> string" where
  "PathEscape s = escape s encodePathSegment"

definition QueryEscape :: "string \<Rightarrow> string" where
  "QueryEscape s = escape s encodeQueryComponent"

definition pathSeg :: "string \<Rightarrow> string" where
  "pathSeg s = PathEscape s"

subsection \<open>Strings (\<open>strings\<close>)\<close>

text \<open>
  \<open>strings.TrimRight(s, cutset)\<close> drops every trailing byte that occurs in \<open>cutset\<close>
  (the cut set is ASCII here); \<open>strings.Join(elems, sep)\<close> puts \<open>sep\<close> between the
  elements.
\<close>

definition strings_TrimRight :: "string \<Rightarrow> string \<Rightarrow> string" where
  "strings_TrimRight s cutset = rev (dropWhile (\<lambda>c. c \<in> set cutset) (rev s))"

fun strings_Join :: "string list \<Rightarrow> string \<Rightarrow> string" where
  "strings_Join [] sep = []"
| "strings_Join [x] sep = x"
| "strings_Join (x # y # xs) sep = x @ sep @ strings_Join (y # xs) sep"

subsection \<open>Constants\<close>

definition apiPathPrefix :: string where
  "apiPathPrefix = ''/api/v1''"

text \<open>\<open>10 * time.Second\<close>, a \<open>time.Duration\<close> in nanoseconds.\<close>

definition defaultTimeout :: int where
  "defaultTimeout = 10 * 1000000000"

definition MethodGet :: string where
  "MethodGet = ''GET''"

definition StatusOK :: int where
  "StatusOK = 200"

subsection \<open>The transport\<close>

text \<open>
  A \<open>context.Context\<close> handed in by the caller: the background context, a nil
  interface, or some other context, told apart by a number.
\<close>

datatype Context = Background | NilContext | UserContext nat

text \<open>\<open>&http.Client{Timeout: timeout}\<close>\<close>

record http_Client =
  Client_Timeout :: int

record http_Request =
  Request_ctx :: Context
  Request_Method :: string
  Request_URL :: string
  Request_Body :: "string option"
  Request_ContentType :: "string option"

text \<open>
  A response: its status code and its body, a stream. \<open>Response_Body\<close> is the bytes
  the stream delivers and \<open>Response_BodyErr\<close> the failure that ends it, if any.
  \<open>io.ReadAll\<close> returns both.
\<close>

record http_Response =
  Response_StatusCode :: int
  Response_Body :: string
  Response_BodyErr :: "ext_error option"

definition io_ReadAll :: "http_Response \<Rightarrow> string \<times> ext_error option" where
  "io_ReadAll resp = (Response_Body resp, Response_BodyErr resp)"

text \<open>
  The configuration and the client of \<open>go-pkg-utils/hmac\<close>. The client is opaque:
  \<open>hmac.NewClient\<close> is a constructor.
\<close>

record hmac_Config =
  hmac_Config_BaseURL :: string
  hmac_Config_HMACSecret :: string
  hmac_Config_Timeout :: int

datatype hmac_Client = hmac_NewClient hmac_Config

text \<open>
  The world is the list of calls the transport has received, oldest first:
  \<open>c.httpClient.Do(req)\<close> in the plain revisions,
  \<open>c.client.DoRequest(method, path, body)\<close> in the HMAC revision.
\<close>

datatype 'b net_call =
    HttpDo http_Client http_Request
  | HmacDoRequest hmac_Client string string "'b option"

type_synonym 'b world = "'b net_call list"

text \<open>
  What lies outside the repository is a parameter of the model: the JSON codec, the
  checks \<open>http.NewRequestWithContext\<close> makes on its arguments, the network behind
  \<open>http.Client.Do\<close> and behind the HMAC client's \<open>DoRequest\<close> (whose answer may
  depend on the calls made so far), and \<open>hmac.ParseJSONResponse\<close>. \<open>'a\<close> is the
  response struct an operation decodes into, with \<open>zero_value\<close> its zero value;
  \<open>'b\<close> is the type of a request body.
\<close>

record ('a, 'b) env =
  json_Unmarshal :: unmarshal
  json_Marshal :: "'b \<Rightarrow> ext_error + string"
  json_Decode :: "http_Response \<Rightarrow> 'a \<Rightarrow> ext_error option \<times> 'a"
  http_NewRequest_check :: "Context \<Rightarrow> string \<Rightarrow> string \<Rightarrow> ext_error option"
  http_Do :: "'b world \<Rightarrow> http_Client \<Rightarrow> http_Request \<Rightarrow> ext_error + http_Response"
  hmac_DoRequest ::
    "'b world \<Rightarrow> hmac_Client \<Rightarrow> string \<Rightarrow> string \<Rightarrow> 'b option \<Rightarrow> ext_error + http_Response"
  hmac_ParseJSONResponse :: "http_Response \<Rightarrow> 'a \<Rightarrow> ext_error option \<times> 'a"
  zero_value :: 'a

definition http_NewRequestWithContext ::
  "('a, 'b) env \<Rightarrow> Context \<Rightarrow> string \<Rightarrow> string \<Rightarrow> string option \<Rightarrow> ext_error + http_Request" where
  "http_NewRequestWithContext env ctx method url body =
     (case http_NewRequest_check env ctx method url of
        Some err \<Rightarrow> Inl err
      | None \<Rightarrow>
          Inr \<lparr>Request_ctx = ctx, Request_Method = method, Request_URL = url,
               Request_Body = body, Request_ContentType = None\<rparr>)"

definition http_NewRequest ::
  "('a, 'b) env \<Rightarrow> string \<Rightarrow> string \<Rightarrow> string option \<Rightarrow> ext_error + http_Request" where
  "http_NewRequest env method url body =
     http_NewRequestWithContext env Background method url body"

definition http_Client_Do ::
  "('a, 'b) env \<Rightarrow> http_Client \<Rightarrow> http_Request \<Rightarrow> 'b world
     \<Rightarrow> (ext_error + http_Response) \<times> 'b world" where
  "http_Client_Do env hc req w = (http_Do env w hc req, w @ [HttpDo hc req])"

definition hmac_Client_DoRequest ::
  "('a, 'b) env \<Rightarrow> hmac_Client \<Rightarrow> string \<Rightarrow> string \<Rightarrow> 'b option \<Rightarrow> 'b world
     \<Rightarrow> (ext_error + http_Response) \<times> 'b world" where
  "hmac_Client_DoRequest env hc method path body w =
     (hmac_DoRequest env w hc method path body, w @ [HmacDoRequest hc method path body])"

subsection \<open>Configuration and construction\<close>

text \<open>\<open>Config\<close> and \<open>Client\<close> of the two plain revisions.\<close>

record Config =
  BaseURL :: string
  Timeout :: int

record Client =
  baseURL :: string
  httpClient :: http_Client

text \<open>\<open>Config\<close> and \<open>Client\<close> of the HMAC revision.\<close>

record Config_hmac =
  BaseURL_hmac :: string
  HMACSecret :: string
  Timeout_hmac :: int

record Client_hmac =
  client :: hmac_Client

text \<open>\<open>NewClient\<close> of the plain revisions.\<close>

definition NewClient :: "Config \<Rightarrow> Client option \<times> error option" where
  "NewClient config =
     (if BaseURL config = [] then (None, Some (Errorf ''base URL is required''))
      else
        (let baseURL' = strings_TrimRight (BaseURL config) ''/'';
             timeout = Timeout config;
             timeout = (if timeout = 0 then defaultTimeout else timeout)
         in (Some \<lparr>baseURL = baseURL', httpClient = \<lparr>Client_Timeout = timeout\<rparr>\<rparr>, None)))"

text \<open>\<open>NewClient\<close> of the HMAC revision.\<close>

definition NewClient_hmac :: "Config_hmac \<Rightarrow> Client_hmac option \<times> error option" where
  "NewClient_hmac config =
     (if BaseURL_hmac config = [] then (None, Some (Errorf ''base URL is required''))
      else if HMACSecret config = [] then (None, Some (Errorf ''HMAC secret is required''))
      else
        (let baseURL' = strings_TrimRight (BaseURL_hmac config) ''/'';
             timeout = Timeout_hmac config;
             timeout = (if timeout = 0 then defaultTimeout else timeout);
             hmacClient = hmac_NewClient
               \<lparr>hmac_Config_BaseURL = baseURL', hmac_Config_HMACSecret = HMACSecret config,
                hmac_Config_Timeout = timeout\<rparr>
         in (Some \<lparr>client = hmacClient\<rparr>, None)))"

subsection \<open>Executing a request\<close>

text \<open>
  \<open>do\<close> returns an error and writes the decoded response through the pointer
  \<open>result\<close>. In the model \<open>result\<close> is \<open>None\<close> for a nil interface and \<open>Some v\<close> for
  a pointer to a variable holding \<open>v\<close>; \<open>do\<close> returns the error together with the
  variable's content after the call, and the world.
\<close>

text \<open>HMAC revision (\<open>client.go\<close>).\<close>

definition do_hmac ::
  "('a, 'b) env \<Rightarrow> Client_hmac \<Rightarrow> string \<Rightarrow> string \<Rightarrow> 'b option \<Rightarrow> int list \<Rightarrow> 'a option
     \<Rightarrow> string \<Rightarrow> 'b world \<Rightarrow> (error option \<times> 'a option) \<times> 'b world" where
  "do_hmac env c method path body successStatuses result wrapErr w =
     (case hmac_Client_DoRequest env (client c) method path body w of
        (Inl err, w') \<Rightarrow> ((Some (Wrapf wrapErr (Ext err)), result), w')
      | (Inr resp, w') \<Rightarrow>
          if \<not> statusIn (Response_StatusCode resp) successStatuses then
            (let (respBody, _) = io_ReadAll resp
             in ((Some (API (parseErrorResponse (json_Unmarshal env)
                               (Response_StatusCode resp) respBody)), result), w'))
          else
            (case result of
               Some target \<Rightarrow>
                 (case hmac_ParseJSONResponse env resp target of
                    (Some err, target') \<Rightarrow> ((Some (Wrapf wrapErr (Ext err)), Some target'), w')
                  | (None, target') \<Rightarrow> ((None, Some target'), w'))
             | None \<Rightarrow> ((None, None), w')))"

text \<open>Plain revision with raw query strings (\<open>unnamed/part_000\<close>).\<close>

definition doRequest ::
  "('a, 'b) env \<Rightarrow> Client \<Rightarrow> string \<Rightarrow> string \<Rightarrow> 'b option \<Rightarrow> 'b world
     \<Rightarrow> (error + http_Response) \<times> 'b world" where
  "doRequest env c method path body w =
     (let fullURL = baseURL c @ path in
      case (case body of
              None \<Rightarrow> Inr None
            | Some b \<Rightarrow>
                (case json_Marshal env b of
                   Inl err \<Rightarrow> Inl (Wrapf ''marshal body'' (Ext err))
                 | Inr raw \<Rightarrow> Inr (Some raw))) of
        Inl err \<Rightarrow> (Inl err, w)
      | Inr bodyReader \<Rightarrow>
          (case http_NewRequest env method fullURL bodyReader of
             Inl err \<Rightarrow> (Inl (Ext err), w)
           | Inr req \<Rightarrow>
               (let req = (if body \<noteq> None
                           then req\<lparr>Request_ContentType := Some ''application/json''\<rparr>
                           else req)
                in case http_Client_Do env (httpClient c) req w of
                     (Inl err, w') \<Rightarrow> (Inl (Ext err), w')
                   | (Inr resp, w') \<Rightarrow> (Inr resp, w'))))"

definition do_raw ::
  "('a, 'b) env \<Rightarrow> Client \<Rightarrow> string \<Rightarrow> string \<Rightarrow> 'b option \<Rightarrow> int list \<Rightarrow> 'a option
     \<Rightarrow> string \<Rightarrow> 'b world \<Rightarrow> (error option \<times> 'a option) \<times> 'b world" where
  "do_raw env c method path body successStatuses result wrapErr w =
     (case doRequest env c method path body w of
        (Inl err, w') \<Rightarrow> ((Some (Wrapf wrapErr err), result), w')
      | (Inr resp, w') \<Rightarrow>
          if \<not> statusIn (Response_StatusCode resp) successStatuses then
            (let (respBody, _) = io_ReadAll resp
             in ((Some (API (parseErrorResponse (json_Unmarshal env)
                               (Response_StatusCode resp) respBody)), result), w'))
          else
            (case result of
               Some target \<Rightarrow>
                 (case json_Decode env resp target of
                    (Some err, target') \<Rightarrow> ((Some (Wrapf wrapErr (Ext err)), Some target'), w')
                  | (None, target') \<Rightarrow> ((None, Some target'), w'))
             | None \<Rightarrow> ((None, None), w')))"

text \<open>Plain revision with structured filters (\<open>unnamed/part_001\<close>).\<close>

definition do_filt ::
  "('a, 'b) env \<Rightarrow> Client \<Rightarrow> Context \<Rightarrow> string \<Rightarrow> string \<Rightarrow> int list \<Rightarrow> 'a option
     \<Rightarrow> string \<Rightarrow> 'b world \<Rightarrow> (error option \<times> 'a option) \<times> 'b world" where
  "do_filt env c ctx method path successStatuses result wrapErr w =
     (case http_NewRequestWithContext env ctx method path None of
        Inl err \<Rightarrow> ((Some (Wrapf wrapErr (Ext err)), result), w)
      | Inr req \<Rightarrow>
          (case http_Client_Do env (httpClient c) req w of
             (Inl err, w') \<Rightarrow> ((Some (Wrapf wrapErr (Ext err)), result), w')
           | (Inr resp, w') \<Rightarrow>
               if \<not> statusIn (Response_StatusCode resp) successStatuses then
                 (let (respBody, _) = io_ReadAll resp
                  in ((Some (API (parseErrorResponse (json_Unmarshal env)
                                    (Response_StatusCode resp) respBody)), result), w'))
               else
                 (case result of
                    Some target \<Rightarrow>
                      (case json_Decode env resp target of
                         (Some err, target') \<Rightarrow>
                           ((Some (Wrapf wrapErr (Ext err)), Some target'), w')
                       | (None, target') \<Rightarrow> ((None, Some target'), w'))
                  | None \<Rightarrow> ((None, None), w'))))"

subsection \<open>The operations of the HMAC revision (\<open>client.go\<close>)\<close>

text \<open>\<open>ident\<close> is the parameter \<open>id\<close> of the source; no operation reads \<open>ctx\<close> here.\<close>

definition ListMails_hmac ::
  "('a, 'b) env \<Rightarrow> Client_hmac \<Rightarrow> Context \<Rightarrow> string \<Rightarrow> 'b world
     \<Rightarrow> ('a option \<times> error option) \<times> 'b world" where
  "ListMails_hmac env c ctx queryString w =
     (let path = apiPathPrefix @ ''/mails'';
          path = (if queryString \<noteq> [] then path @ ''?'' @ queryString else path);
          result = zero_value env
      in case do_hmac env c MethodGet path None [StatusOK] (Some result) ''failed to list mails'' w of
           ((Some err, _), w') \<Rightarrow> ((None, Some err), w')
         | ((None, result'), w') \<Rightarrow> ((result', None), w'))"

definition GetMail_hmac ::
  "('a, 'b) env \<Rightarrow> Client_hmac \<Rightarrow> Context \<Rightarrow> string \<Rightarrow> 'b world
     \<Rightarrow> ('a option \<times> error option) \<times> 'b world" where
  "GetMail_hmac env c ctx ident w =
     (if ident = [] then ((None, Some (Errorf ''mail id is required'')), w)
      else
        (let path = apiPathPrefix @ ''/mails/'' @ pathSeg ident;
             result = zero_value env
         in case do_hmac env c MethodGet path None [StatusOK] (Some result) ''failed to get mail'' w of
              ((Some err, _), w') \<Rightarrow> ((None, Some err), w')
            | ((None, result'), w') \<Rightarrow> ((result', None), w')))"

definition ListTemplates_hmac ::
  "('a, 'b) env \<Rightarrow> Client_hmac \<Rightarrow> Context \<Rightarrow> string \<Rightarrow> 'b world
     \<Rightarrow> ('a option \<times> error option) \<times> 'b world" where
  "ListTemplates_hmac env c ctx queryString w =
     (let path = apiPathPrefix @ ''/templates'';
          path = (if queryString \<noteq> [] then path @ ''?'' @ queryString else path);
          result = zero_value env
      in case do_hmac env c MethodGet path None [StatusOK] (Some result) ''failed to list templates'' w of
           ((Some err, _), w') \<Rightarrow> ((None, Some err), w')
         | ((None, result'), w') \<Rightarrow> ((result', None), w'))"

definition GetTemplate_hmac ::
  "('a, 'b) env \<Rightarrow> Client_hmac \<Rightarrow> Context \<Rightarrow> string \<Rightarrow> 'b world
     \<Rightarrow> ('a option \<times> error option) \<times> 'b world" where
  "GetTemplate_hmac env c ctx ident w =
     (if ident = [] then ((None, Some (Errorf ''template id is required'')), w)
      else
        (let path = apiPathPrefix @ ''/templates/'' @ pathSeg ident;
             result = zero_value env
         in case do_hmac env c MethodGet path None [StatusOK] (Some result) ''failed to get template'' w of
              ((Some err, _), w') \<Rightarrow> ((None, Some err), w')
            | ((None, result'), w') \<Rightarrow> ((result', None), w')))"

definition ListAttachments_hmac ::
  "('a, 'b) env \<Rightarrow> Client_hmac \<Rightarrow> Context \<Rightarrow> string \<Rightarrow> 'b world
     \<Rightarrow> ('a option \<times> error option) \<times> 'b world" where
  "ListAttachments_hmac env c ctx queryString w =
     (let path = apiPathPrefix @ ''/attachments'';
          path = (if queryString \<noteq> [] then path @ ''?'' @ queryString else path);
          result = zero_value env
      in case do_hmac env c MethodGet path None [StatusOK] (Some result) ''failed to list attachments'' w of
           ((Some err, _), w') \<Rightarrow> ((None, Some err), w')
         | ((None, result'), w') \<Rightarrow> ((result', None), w'))"

definition GetAttachment_hmac ::
  "('a, 'b) env \<Rightarrow> Client_hmac \<Rightarrow> Context \<Rightarrow> string \<Rightarrow> 'b world
     \<Rightarrow> ('a option \<times> error option) \<times> 'b world" where
  "GetAttachment_hmac env c ctx ident w =
     (if ident = [] then ((None, Some (Errorf ''attachment id is required'')), w)
      else
        (let path = apiPathPrefix @ ''/attachments/'' @ pathSeg ident;
             result = zero_value env
         in case do_hmac env c MethodGet path None [StatusOK] (Some result) ''failed to get attachment'' w of
              ((Some err, _), w') \<Rightarrow> ((None, Some err), w')
            | ((None, result'), w') \<Rightarrow> ((result', None), w')))"

subsection \<open>The operations of the plain revision with raw query strings (\<open>unnamed/part_000\<close>)\<close>

definition ListMails_raw ::
  "('a, 'b) env \<Rightarrow> Client \<Rightarrow> Context \<Rightarrow> string \<Rightarrow> 'b world
     \<Rightarrow> ('a option \<times> error option) \<times> 'b world" where
  "ListMails_raw env c ctx queryString w =
     (let path = apiPathPrefix @ ''/mails'';
          path = (if queryString \<noteq> [] then path @ ''?'' @ queryString else path);
          result = zero_value env
      in case do_raw env c MethodGet path None [StatusOK] (Some result) ''failed to list mails'' w of
           ((Some err, _), w') \<Rightarrow> ((None, Some err), w')
         | ((None, result'), w') \<Rightarrow> ((result', None), w'))"

definition GetMail_raw ::
  "('a, 'b) env \<Rightarrow> Client \<Rightarrow> Context \<Rightarrow> string \<Rightarrow> 'b world
     \<Rightarrow> ('a option \<times> error option) \<times> 'b world" where
  "GetMail_raw env c ctx ident w =
     (if ident = [] then ((None, Some (Errorf ''mail id is required'')), w)
      else
        (let path = apiPathPrefix @ ''/mails/'' @ pathSeg ident;
             result = zero_value env
         in case do_raw env c MethodGet path None [StatusOK] (Some result) ''failed to get mail'' w of
              ((Some err, _), w') \<Rightarrow> ((None, Some err), w')
            | ((None, result'), w') \<Rightarrow> ((result', None), w')))"

definition ListTemplates_raw ::
  "('a, 'b) env \<Rightarrow> Client \<Rightarrow> Context \<Rightarrow> string \<Rightarrow> 'b world
     \<Rightarrow> ('a option \<times> error option) \<times> 'b world" where
  "ListTemplates_raw env c ctx queryString w =
     (let path = apiPathPrefix @ ''/templates'';
          path = (if queryString \<noteq> [] then path @ ''?'' @ queryString else path);
          result = zero_value env
      in case do_raw env c MethodGet path None [StatusOK] (Some result) ''failed to list templates'' w of
           ((Some err, _), w') \<Rightarrow> ((None, Some err), w')
         | ((None, result'), w') \<Rightarrow> ((result', None), w'))"

definition GetTemplate_raw ::
  "('a, 'b) env \<Rightarrow> Client \<Rightarrow> Context \<Rightarrow> string \<Rightarrow> 'b world
     \<Rightarrow> ('a option \<times> error option) \<times> 'b world" where
  "GetTemplate_raw env c ctx ident w =
     (if ident = [] then ((None, Some (Errorf ''template id is required'')), w)
      else
        (let path = apiPathPrefix @ ''/templates/'' @ pathSeg ident;
             result = zero_value env
         in case do_raw env c MethodGet path None [StatusOK] (Some result) ''failed to get template'' w of
              ((Some err, _), w') \<Rightarrow> ((None, Some err), w')
            | ((None, result'), w') \<Rightarrow> ((result', None), w')))"

definition ListAttachments_raw ::
  "('a, 'b) env \<Rightarrow> Client \<Rightarrow> Context \<Rightarrow> string \<Rightarrow> 'b world
     \<Rightarrow> ('a option \<times> error option) \<times> 'b world" where
  "ListAttachments_raw env c ctx queryString w =
     (let path = apiPathPrefix @ ''/attachments'';
          path = (if queryString \<noteq> [] then path @ ''?'' @ queryString else path);
          result = zero_value env
      in case do_raw env c MethodGet path None [StatusOK] (Some result) ''failed to list attachments'' w of
           ((Some err, _), w') \<Rightarrow> ((None, Some err), w')
         | ((None, result'), w') \<Rightarrow> ((result', None), w'))"

definition GetAttachment_raw ::
  "('a, 'b) env \<Rightarrow> Client \<Rightarrow> Context \<Rightarrow> string \<Rightarrow> 'b world
     \<Rightarrow> ('a option \<times> error option) \<times> 'b world" where
  "GetAttachment_raw env c ctx ident w =
     (if ident = [] then ((None, Some (Errorf ''attachment id is required'')), w)
      else
        (let path = apiPathPrefix @ ''/attachments/'' @ pathSeg ident;
             result = zero_value env
         in case do_raw env c MethodGet path None [StatusOK] (Some result) ''failed to get attachment'' w of
              ((Some err, _), w') \<Rightarrow> ((None, Some err), w')
            | ((None, result'), w') \<Rightarrow> ((result', None), w')))"

subsection \<open>The operations of the plain revision with structured filters (\<open>unnamed/part_001\<close>)\<close>

record ListMailsRequest =
  Page :: int
  PerPage :: int
  Service :: string
  Type :: string
  Status :: string

record ListTemplatesRequest =
  Templates_Page :: int
  Templates_PerPage :: int

record ListAttachmentsRequest =
  Attachments_Page :: int
  Attachments_PerPage :: int
  MailID :: string

text \<open>
  The first half of \<open>ListMails\<close>, \<open>ListTemplates\<close> and \<open>ListAttachments\<close>: the path
  they hand to \<open>do\<close>.
\<close>

definition ListMails_path :: "Client \<Rightarrow> ListMailsRequest \<Rightarrow> string" where
  "ListMails_path c req =
     (let queryParams = [];
          queryParams = (if Page req > 0
                         then queryParams @ [''page='' @ show_int (Page req)]
                         else queryParams);
          queryParams = (if PerPage req > 0
                         then queryParams @ [''per_page='' @ show_int (PerPage req)]
                         else queryParams);
          queryParams = (if Service req \<noteq> []
                         then queryParams @ [''service='' @ QueryEscape (Service req)]
                         else queryParams);
          queryParams = (if Type req \<noteq> []
                         then queryParams @ [''type='' @ QueryEscape (Type req)]
                         else queryParams);
          queryParams = (if Status req \<noteq> []
                         then queryParams @ [''status='' @ QueryEscape (Status req)]
                         else queryParams);
          path = baseURL c @ apiPathPrefix @ ''/mails'';
          path = (if length queryParams > 0
                  then path @ ''?'' @ strings_Join queryParams ''&''
                  else path)
      in path)"

definition ListTemplates_path :: "Client \<Rightarrow> ListTemplatesRequest \<Rightarrow> string" where
  "ListTemplates_path c req =
     (let queryParams = [];
          queryParams = (if Templates_Page req > 0
                         then queryParams @ [''page='' @ show_int (Templates_Page req)]
                         else queryParams);
          queryParams = (if Templates_PerPage req > 0
                         then queryParams @ [''per_page='' @ show_int (Templates_PerPage req)]
                         else queryParams);
          path = baseURL c @ apiPathPrefix @ ''/templates'';
          path = (if length queryParams > 0
                  then path @ ''?'' @ strings_Join queryParams ''&''
                  else path)
      in path)"

definition ListAttachments_path :: "Client \<Rightarrow> ListAttachmentsRequest \<Rightarrow> string" where
  "ListAttachments_path c req =
     (let queryParams = [];
          queryParams = (if Attachments_Page req > 0
                         then queryParams @ [''page='' @ show_int (Attachments_Page req)]
                         else queryParams);
          queryParams = (if Attachments_PerPage req > 0
                         then queryParams @ [''per_page='' @ show_int (Attachments_PerPage req)]
                         else queryParams);
          queryParams = (if MailID req \<noteq> []
                         then queryParams @ [''mail_id='' @ QueryEscape (MailID req)]
                         else queryParams);
          path = baseURL c @ apiPathPrefix @ ''/attachments'';
          path = (if length queryParams > 0
                  then path @ ''?'' @ strings_Join queryParams ''&''
                  else path)
      in path)"

definition ListMails_filt ::
  "('a, 'b) env \<Rightarrow> Client \<Rightarrow> Context \<Rightarrow> ListMailsRequest \<Rightarrow> 'b world
     \<Rightarrow> ('a option \<times> error option) \<times> 'b world" where
  "ListMails_filt env c ctx req w =
     (let path = ListMails_path c req;
          result = zero_value env
      in case do_filt env c ctx MethodGet path [StatusOK] (Some result) ''failed to list mails'' w of
           ((Some err, _), w') \<Rightarrow> ((None, Some err), w')
         | ((None, result'), w') \<Rightarrow> ((result', None), w'))"

definition ListMailsWithQuery_filt ::
  "('a, 'b) env \<Rightarrow> Client \<Rightarrow> Context \<Rightarrow> string \<Rightarrow> 'b world
     \<Rightarrow> ('a option \<times> error option) \<times> 'b world" where
  "ListMailsWithQuery_filt env c ctx queryString w =
     (let path = baseURL c @ apiPathPrefix @ ''/mails'';
          path = (if queryString \<noteq> [] then path @ ''?'' @ queryString else path);
          result = zero_value env
      in case do_filt env c ctx MethodGet path [StatusOK] (Some result) ''failed to list mails'' w of
           ((Some err, _), w') \<Rightarrow> ((None, Some err), w')
         | ((None, result'), w') \<Rightarrow> ((result', None), w'))"

definition GetMail_filt ::
  "('a, 'b) env \<Rightarrow> Client \<Rightarrow> Context \<Rightarrow> string \<Rightarrow> 'b world
     \<Rightarrow> ('a option \<times> error option) \<times> 'b world" where
  "GetMail_filt env c ctx ident w =
     (if ident = [] then ((None, Some (Errorf ''mail id is required'')), w)
      else
        (let path = baseURL c @ apiPathPrefix @ ''/mails/'' @ pathSeg ident;
             result = zero_value env
         in case do_filt env c ctx MethodGet path [StatusOK] (Some result) ''failed to get mail'' w of
              ((Some err, _), w') \<Rightarrow> ((None, Some err), w')
            | ((None, result'), w') \<Rightarrow> ((result', None), w')))"

definition ListTemplates_filt ::
  "('a, 'b) env \<Rightarrow> Client \<Rightarrow> Context \<Rightarrow> ListTemplatesRequest \<Rightarrow> 'b world
     \<Rightarrow> ('a option \<times> error option) \<times> 'b world" where
  "ListTemplates_filt env c ctx req w =
     (let path = ListTemplates_path c req;
          result = zero_value env
      in case do_filt env c ctx MethodGet path [StatusOK] (Some result) ''failed to list templates'' w of
           ((Some err, _), w') \<Rightarrow> ((None, Some err), w')
         | ((None, result'), w') \<Rightarrow> ((result', None), w'))"

definition ListTemplatesWithQuery_filt ::
  "('a, 'b) env \<Rightarrow> Client \<Rightarrow> Context \<Rightarrow> string \<Rightarrow> 'b world
     \<Rightarrow> ('a option \<times> error option) \<times> 'b world" where
  "ListTemplatesWithQuery_filt env c ctx queryString w =
     (let path = baseURL c @ apiPathPrefix @ ''/templates'';
          path = (if queryString \<noteq> [] then path @ ''?'' @ queryString else path);
          result = zero_value env
      in case do_filt env c ctx MethodGet path [StatusOK] (Some result) ''failed to list templates'' w of
           ((Some err, _), w') \<Rightarrow> ((None, Some err), w')
         | ((None, result'), w') \<Rightarrow> ((result', None), w'))"

definition GetTemplate_filt ::
  "('a, 'b) env \<Rightarrow> Client \<Rightarrow> Context \<Rightarrow> string \<Rightarrow> 'b world
     \<Rightarrow> ('a option \<times> error option) \<times> 'b world" where
  "GetTemplate_filt env c ctx ident w =
     (if ident = [] then ((None, Some (Errorf ''template id is required'')), w)
      else
        (let path = baseURL c @ apiPathPrefix @ ''/templates/'' @ pathSeg ident;
             result = zero_value env
         in case do_filt env c ctx MethodGet path [StatusOK] (Some result) ''failed to get template'' w of
              ((Some err, _), w') \<Rightarrow> ((None, Some err), w')
            | ((None, result'), w') \<Rightarrow> ((result', None), w')))"

definition ListAttachments_filt ::
  "('a, 'b) env \<Rightarrow> Client \<Rightarrow> Context \<Rightarrow> ListAttachmentsRequest \<Rightarrow> 'b world
     \<Rightarrow> ('a option \<times> error option) \<times> 'b world" where
  "ListAttachments_filt env c ctx req w =
     (let path = ListAttachments_path c req;
          result = zero_value env
      in case do_filt env c ctx MethodGet path [StatusOK] (Some result) ''failed to list attachments'' w of
           ((Some err, _), w') \<Rightarrow> ((None, Some err), w')
         | ((None, result'), w') \<Rightarrow> ((result', None), w'))"

definition ListAttachmentsWithQuery_filt ::
  "('a, 'b) env \<Rightarrow> Client \<Rightarrow> Context \<Rightarrow> string \<Rightarrow> 'b world
     \<Rightarrow> ('a option \<times> error option) \<times> 'b world" where
  "ListAttachmentsWithQuery_filt env c ctx queryString w =
     (let path = baseURL c @ apiPathPrefix @ ''/attachments'';
          path = (if queryString \<noteq> [] then path @ ''?'' @ queryString else path);
          result = zero_value env
      in case do_filt env c ctx MethodGet path [StatusOK] (Some result) ''failed to list attachments'' w of
           ((Some err, _), w') \<Rightarrow> ((None, Some err), w')
         | ((None, result'), w') \<Rightarrow> ((result', None), w'))"

definition GetAttachment_filt ::
  "('a, 'b) env \<Rightarrow> Client \<Rightarrow> Context \<Rightarrow> string \<Rightarrow> 'b world
     \<Rightarrow> ('a option \<times> error option) \<times> 'b world" where
  "GetAttachment_filt env c ctx ident w =
     (if ident = [] then ((None, Some (Errorf ''attachment id is required'')), w)
      else
        (let path = baseURL c @ apiPathPrefix @ ''/attachments/'' @ pathSeg ident;
             result = zero_value env
         in case do_filt env c ctx MethodGet path [StatusOK] (Some result) ''failed to get attachment'' w of
              ((Some err, _), w') \<Rightarrow> ((None, Some err), w')
            | ((None, result'), w') \<Rightarrow> ((result', None), w')))"

text \<open>
  The common ending of every operation,
  \<open>if err != nil { return nil, err }; return &result, nil\<close>, applied to what \<open>do\<close>
  returned. It is written out in each operation's definition; the abbreviation only
  shortens statements about them.
\<close>

abbreviation (input) returned ::
  "(error option \<times> 'a option) \<times> 'w \<Rightarrow> ('a option \<times> error option) \<times> 'w" where
  "returned X \<equiv>
     (case X of
        ((Some err, r), w') \<Rightarrow> ((None, Some err), w')
      | ((None, r), w') \<Rightarrow> ((r, None), w'))"

subsection \<open>The exported operations, enumerated\<close>

text \<open>
  A call of an exported list or get operation, as a value, so that a statement can range
  over every operation of a revision. The HMAC revision and the plain revision with raw
  query strings export the same six methods; the revision with structured filters
  exports nine. \<open>call_hmac\<close>, \<open>call_raw\<close> and \<open>call_filt\<close> run the call on the
  operation's own definition.
\<close>

datatype call =
    ListMails string
  | GetMail string
  | ListTemplates string
  | GetTemplate string
  | ListAttachments string
  | GetAttachment string

datatype call_filt =
    ListMailsF ListMailsRequest
  | ListMailsWithQueryF string
  | GetMailF string
  | ListTemplatesF ListTemplatesRequest
  | ListTemplatesWithQueryF string
  | GetTemplateF string
  | ListAttachmentsF ListAttachmentsRequest
  | ListAttachmentsWithQueryF string
  | GetAttachmentF string

definition call_hmac ::
  "('a, 'b) env \<Rightarrow> Client_hmac \<Rightarrow> Context \<Rightarrow> call \<Rightarrow> 'b world
     \<Rightarrow> ('a option \<times> error option) \<times> 'b world" where
  "call_hmac env c ctx k w =
     (case k of
        ListMails q \<Rightarrow> ListMails_hmac env c ctx q w
      | GetMail i \<Rightarrow> GetMail_hmac env c ctx i w
      | ListTemplates q \<Rightarrow> ListTemplates_hmac env c ctx q w
      | GetTemplate i \<Rightarrow> GetTemplate_hmac env c ctx i w
      | ListAttachments q \<Rightarrow> ListAttachments_hmac env c ctx q w
      | GetAttachment i \<Rightarrow> GetAttachment_hmac env c ctx i w)"

definition call_raw ::
  "('a, 'b) env \<Rightarrow> Client \<Rightarrow> Context \<Rightarrow> call \<Rightarrow> 'b world
     \<Rightarrow> ('a option \<times> error option) \<times> 'b world" where
  "call_raw env c ctx k w =
     (case k of
        ListMails q \<Rightarrow> ListMails_raw env c ctx q w
      | GetMail i \<Rightarrow> GetMail_raw env c ctx i w
      | ListTemplates q \<Rightarrow> ListTemplates_raw env c ctx q w
      | GetTemplate i \<Rightarrow> GetTemplate_raw env c ctx i w
      | ListAttachments q \<Rightarrow> ListAttachments_raw env c ctx q w
      | GetAttachment i \<Rightarrow> GetAttachment_raw env c ctx i w)"

definition call_filt ::
  "('a, 'b) env \<Rightarrow> Client \<Rightarrow> Context \<Rightarrow> call_filt \<Rightarrow> 'b world
     \<Rightarrow> ('a option \<times> error option) \<times> 'b world" where
  "call_filt env c ctx k w =
     (case k of
        ListMailsF r \<Rightarrow> ListMails_filt env c ctx r w
      | ListMailsWithQueryF q \<Rightarrow> ListMailsWithQuery_filt env c ctx q w
      | GetMailF i \<Rightarrow> GetMail_filt env c ctx i w
      | ListTemplatesF r \<Rightarrow> ListTemplates_filt env c ctx r w
      | ListTemplatesWithQueryF q \<Rightarrow> ListTemplatesWithQuery_filt env c ctx q w
      | GetTemplateF i \<Rightarrow> GetTemplate_filt env c ctx i w
      | ListAttachmentsF r \<Rightarrow> ListAttachments_filt env c ctx r w
      | ListAttachmentsWithQueryF q \<Rightarrow> ListAttachmentsWithQuery_filt env c ctx q w
      | GetAttachmentF i \<Rightarrow> GetAttachment_filt env c ctx i w)"

text \<open>
  What the transport answered to a call it received when the world was \<open>w\<close>.
\<close>

definition transport_answer ::
  "('a, 'b) env \<Rightarrow> 'b world \<Rightarrow> 'b net_call \<Rightarrow> ext_error + http_Response" where
  "transport_answer env w k =
     (case k of
        HttpDo hc req \<Rightarrow> http_Do env w hc req
      | HmacDoRequest hc method path body \<Rightarrow> hmac_DoRequest env w hc method path body)"

text \<open>
  The request the operations send: a GET without body and without content type.
\<close>

definition GET_request :: "Context \<Rightarrow> string \<Rightarrow> http_Request" where
  "GET_request ctx url =
     \<lparr>Request_ctx = ctx, Request_Method = ''GET'', Request_URL = url, Request_Body = None,
      Request_ContentType = None\<rparr>"

subsection \<open>The specification's words, as definitions\<close>

text \<open>
  What the specification says \<open>do\<close> makes of a response the transport delivered: on a
  status code in the accepted set the body is decoded into the result, if one was
  supplied, and a decoding failure is wrapped with the operation's prefix; on any other
  status the body is read in full and an API error is built from it.
\<close>

definition outcome ::
  "unmarshal \<Rightarrow> (http_Response \<Rightarrow> 'a \<Rightarrow> ext_error option \<times> 'a) \<Rightarrow> int list \<Rightarrow> 'a option \<Rightarrow> string
     \<Rightarrow> http_Response \<Rightarrow> error option \<times> 'a option" where
  "outcome unm decode codes result wrapErr resp =
     (if Response_StatusCode resp \<in> set codes
      then (case result of
              None \<Rightarrow> (None, None)
            | Some target \<Rightarrow>
                (case decode resp target of
                   (Some err, target') \<Rightarrow> (Some (Wrapf wrapErr (Ext err)), Some target')
                 | (None, target') \<Rightarrow> (None, Some target')))
      else (Some (API (parseErrorResponse unm (Response_StatusCode resp) (Response_Body resp))),
            result))"

text \<open>
  The query parameters of the structured \<open>ListMails\<close>, in the fixed order page,
  per_page, service, type, status. \<open>ListMails_params_nonzero\<close> keeps a parameter when
  its field is not at its zero value, as the specification words it;
  \<open>ListMails_params_positive\<close> keeps a number only when it is greater than zero.
  \<open>with_query\<close> appends the parameters to a path, with no \<open>?\<close> when there are none.
\<close>

definition ListMails_params_nonzero :: "ListMailsRequest \<Rightarrow> string list" where
  "ListMails_params_nonzero req =
     map snd (filter fst
       [(Page req \<noteq> 0, ''page='' @ show_int (Page req)),
        (PerPage req \<noteq> 0, ''per_page='' @ show_int (PerPage req)),
        (Service req \<noteq> [], ''service='' @ QueryEscape (Service req)),
        (Type req \<noteq> [], ''type='' @ QueryEscape (Type req)),
        (Status req \<noteq> [], ''status='' @ QueryEscape (Status req))])"

definition ListMails_params_positive :: "ListMailsRequest \<Rightarrow> string list" where
  "ListMails_params_positive req =
     map snd (filter fst
       [(Page req > 0, ''page='' @ show_int (Page req)),
        (PerPage req > 0, ''per_page='' @ show_int (PerPage req)),
        (Service req \<noteq> [], ''service='' @ QueryEscape (Service req)),
        (Type req \<noteq> [], ''type='' @ QueryEscape (Type req)),
        (Status req \<noteq> [], ''status='' @ QueryEscape (Status req))])"

definition with_query :: "string \<Rightarrow> string list \<Rightarrow> string" where
  "with_query path params =
     (if params = [] then path else path @ ''?'' @ strings_Join params ''&'')"

subsection \<open>A concrete environment\<close>

text \<open>
  A decoder for the three sample bodies, with the results Go's \<open>json.Unmarshal\<close> gives
  on them; every other body is reported as a syntax error. It instantiates the
  parameter where a concrete decoder is needed.
\<close>

definition sample_Unmarshal :: unmarshal where
  \<open>sample_Unmarshal body v =
     (if body = ''{"error":"X","message":"Y"}''
      then (None, v\<lparr>errorResp_Message := ''Y'', errorResp_Error := ''X''\<rparr>)
      else if body = ''{"message":"Y"}''
      then (None, v\<lparr>errorResp_Message := ''Y''\<rparr>)
      else (Some (ExtError ''invalid character''), v))\<close>

text \<open>
  A server that answers 404 with the body \<open>{"message":"Y"}\<close> to a URL ending in
  \<open>missing\<close> and 200 with the body \<open>{}\<close> to any other; a codec that takes the body
  text itself for the decoded response and fails on an empty or broken body; and a
  request check that refuses the nil context. Responses are decoded into \<open>string\<close>,
  and request bodies are \<open>string\<close>.
\<close>

definition sample_server :: "string \<Rightarrow> ext_error + http_Response" where
  \<open>sample_server url =
     (if take 7 (rev url) = rev ''missing''
      then Inr \<lparr>Response_StatusCode = 404, Response_Body = ''{"message":"Y"}'',
                Response_BodyErr = None\<rparr>
      else Inr \<lparr>Response_StatusCode = 200, Response_Body = ''{}'', Response_BodyErr = None\<rparr>)\<close>

definition sample_decode :: "http_Response \<Rightarrow> string \<Rightarrow> ext_error option \<times> string" where
  "sample_decode resp target =
     (case Response_BodyErr resp of
        Some err \<Rightarrow> (Some err, target)
      | None \<Rightarrow>
          if Response_Body resp = [] then (Some (ExtError ''EOF''), target)
          else (None, Response_Body resp))"

definition sample_env :: "(string, string) env" where
  "sample_env =
     \<lparr>json_Unmarshal = sample_Unmarshal,
      json_Marshal = (\<lambda>b. Inr b),
      json_Decode = sample_decode,
      http_NewRequest_check =
        (\<lambda>ctx method url. if ctx = NilContext then Some (ExtError ''net/http: nil Context'')
                           else None),
      http_Do = (\<lambda>w hc req. sample_server (Request_URL req)),
      hmac_DoRequest = (\<lambda>w hc method path body. sample_server path),
      hmac_ParseJSONResponse = sample_decode,
      zero_value = []\<rparr>"

text \<open>
  The clients \<open>NewClient\<close> builds from the base URL \<open>http://h:1/\<close> with no timeout
  set (and, in the HMAC revision, the secret \<open>s3cret\<close>).
\<close>

definition sample_client :: Client where
  "sample_client =
     \<lparr>baseURL = ''http://h:1'', httpClient = \<lparr>Client_Timeout = 10000000000\<rparr>\<rparr>"

definition sample_client_hmac :: Client_hmac where
  "sample_client_hmac =
     \<lparr>client = hmac_NewClient
        \<lparr>hmac_Config_BaseURL = ''http://h:1'', hmac_Config_HMACSecret = ''s3cret'',
         hmac_Config_Timeout = 10000000000\<rparr>\<rparr>"


definition missing_response :: http_Response where
  \<open>missing_response =
     \<lparr>Response_StatusCode = 404, Response_Body = ''{"message":"Y"}'',
      Response_BodyErr = None\<rparr>\<close>

definition answering :: "http_Response \<Rightarrow> (string, string) env" where
  "answering resp =
     sample_env
       \<lparr>http_Do := (\<lambda>w hc req. Inr resp),
        hmac_DoRequest := (\<lambda>w hc meth path body. Inr resp)\<rparr>"

section \<open>Properties\<close>

lemma statusIn_set: "statusIn code codes \<longleftrightarrow> code \<in> set codes"
  by (induction codes) auto

text \<open>
  C1. The message of the API error follows a preference order: when the body decodes
  without error, the \<open>error\<close> field if it is not empty, else the \<open>message\<close> field if it
  is not empty; in every other case the raw body. With a decoder that reads
  \<open>{"error":"X","message":"Y"}\<close> and \<open>{"message":"Y"}\<close> as Go's does and rejects
  \<open>oops\<close>, the messages are \<open>X\<close>, \<open>Y\<close> and \<open>oops\<close>.
\<close>

theorem parseErrorResponse_message_preference:
  \<open>Message (parseErrorResponse dec statusCode body) =
     (case dec body errorResp_zero of
        (None, r) \<Rightarrow>
          if errorResp_Error r \<noteq> [] then errorResp_Error r
          else if errorResp_Message r \<noteq> [] then errorResp_Message r
          else body
      | (Some e, r) \<Rightarrow> body)
   \<and> (dec ''{"error":"X","message":"Y"}'' errorResp_zero =
         (None, errorResp_zero\<lparr>errorResp_Message := ''Y'', errorResp_Error := ''X''\<rparr>)
       \<longrightarrow> Message (parseErrorResponse dec statusCode ''{"error":"X","message":"Y"}'') = ''X'')
   \<and> (dec ''{"message":"Y"}'' errorResp_zero =
         (None, errorResp_zero\<lparr>errorResp_Message := ''Y''\<rparr>)
       \<longrightarrow> Message (parseErrorResponse dec statusCode ''{"message":"Y"}'') = ''Y'')
   \<and> (fst (dec ''oops'' errorResp_zero) \<noteq> None
       \<longrightarrow> Message (parseErrorResponse dec statusCode ''oops'') = ''oops'')\<close>
proof -
  have general: \<open>Message (parseErrorResponse d sc b) =
     (case d b errorResp_zero of
        (None, r) \<Rightarrow>
          if errorResp_Error r \<noteq> [] then errorResp_Error r
          else if errorResp_Message r \<noteq> [] then errorResp_Message r
          else b
      | (Some e, r) \<Rightarrow> b)\<close> for d sc b
    by (cases "d b errorResp_zero") (auto simp: parseErrorResponse_def Let_def split: option.splits)
  show ?thesis
    unfolding general
    by (auto simp: errorResp_zero_def split: prod.splits option.splits)
qed

theorem parseErrorResponse_message_preference_witness:
  \<open>Message (parseErrorResponse sample_Unmarshal 500 ''{"error":"X","message":"Y"}'') = ''X''
   \<and> Message (parseErrorResponse sample_Unmarshal 404 ''{"message":"Y"}'') = ''Y''
   \<and> Message (parseErrorResponse sample_Unmarshal 502 ''oops'') = ''oops''\<close>
proof -
  have a: \<open>Message (parseErrorResponse sample_Unmarshal 500 ''{"error":"X","message":"Y"}'') = ''X''\<close>
    using parseErrorResponse_message_preference [of sample_Unmarshal 500 "[]"]
    by (simp add: sample_Unmarshal_def errorResp_zero_def)
  have b: \<open>Message (parseErrorResponse sample_Unmarshal 404 ''{"message":"Y"}'') = ''Y''\<close>
    using parseErrorResponse_message_preference [of sample_Unmarshal 404 "[]"]
    by (simp add: sample_Unmarshal_def errorResp_zero_def)
  have c: \<open>Message (parseErrorResponse sample_Unmarshal 502 ''oops'') = ''oops''\<close>
    using parseErrorResponse_message_preference [of sample_Unmarshal 502 "[]"]
    by (simp add: sample_Unmarshal_def errorResp_zero_def)
  from a b c show ?thesis by simp
qed

subsection \<open>Auxiliary facts\<close>

lemma finish_eq:
  "(case X of ((Some err, r), w') \<Rightarrow> ((None, Some err), w') | ((None, r), w') \<Rightarrow> ((r, None), w')) =
     ((if fst (fst X) = None then snd (fst X) else None, fst (fst X)), snd X)"
  by (auto split: prod.splits option.splits)

lemma outcome_target: "\<exists>y. snd (outcome unm dec codes (Some t) wrapErr resp) = Some y"
  by (auto simp: outcome_def split: if_splits prod.splits option.splits)

lemma outcome_rejected:
  "Response_StatusCode resp \<notin> set codes \<Longrightarrow>
   outcome unm dec codes result wrapErr resp =
     (Some (API (parseErrorResponse unm (Response_StatusCode resp) (Response_Body resp))), result)"
  by (simp add: outcome_def)



lemma parseErrorResponse_StatusCode: "StatusCode (parseErrorResponse dec sc body) = sc"
  by (simp add: parseErrorResponse_def Let_def split: prod.splits)

lemma parseErrorResponse_Body: "Body (parseErrorResponse dec sc body) = body"
  by (simp add: parseErrorResponse_def Let_def split: prod.splits)

text \<open>What each \<open>do\<close> returns and what it adds to the world.\<close>

lemma do_hmac_log:
  "snd (do_hmac env c meth path body codes result wrapErr w) =
     w @ [HmacDoRequest (client c) meth path body]"
  by (simp add: do_hmac_def hmac_Client_DoRequest_def split: sum.splits option.splits prod.splits)

lemma do_hmac_answer:
  "fst (do_hmac env c meth path body codes result wrapErr w) =
     (case hmac_DoRequest env w (client c) meth path body of
        Inl err \<Rightarrow> (Some (Wrapf wrapErr (Ext err)), result)
      | Inr resp \<Rightarrow>
          outcome (json_Unmarshal env) (hmac_ParseJSONResponse env) codes result wrapErr resp)"
  by (simp add: do_hmac_def hmac_Client_DoRequest_def io_ReadAll_def outcome_def statusIn_set
           split: sum.splits option.splits prod.splits)


lemma doRequest_sends:
  assumes "http_NewRequest_check env Background meth (baseURL c @ path) = None"
    and "http_Do env w (httpClient c)
           \<lparr>Request_ctx = Background, Request_Method = meth, Request_URL = baseURL c @ path,
            Request_Body = None, Request_ContentType = None\<rparr> = Inr resp"
  shows "doRequest env c meth path None w =
           (Inr resp,
            w @ [HttpDo (httpClient c)
                   \<lparr>Request_ctx = Background, Request_Method = meth,
                    Request_URL = baseURL c @ path, Request_Body = None,
                    Request_ContentType = None\<rparr>])"
  using assms
  by (simp add: doRequest_def http_NewRequest_def http_NewRequestWithContext_def
        http_Client_Do_def Let_def)

lemma doRequest_sends_body:
  assumes "json_Marshal env b = Inr raw"
    and "http_NewRequest_check env Background meth (baseURL c @ path) = None"
    and "http_Do env w (httpClient c)
           \<lparr>Request_ctx = Background, Request_Method = meth, Request_URL = baseURL c @ path,
            Request_Body = Some raw, Request_ContentType = Some ''application/json''\<rparr>
         = Inr resp"
  shows "doRequest env c meth path (Some b) w =
           (Inr resp,
            w @ [HttpDo (httpClient c)
                   \<lparr>Request_ctx = Background, Request_Method = meth,
                    Request_URL = baseURL c @ path, Request_Body = Some raw,
                    Request_ContentType = Some ''application/json''\<rparr>])"
  using assms
  by (simp add: doRequest_def http_NewRequest_def http_NewRequestWithContext_def
        http_Client_Do_def Let_def)

lemma do_raw_log:
  "snd (do_raw env c meth path body codes result wrapErr w) =
     snd (doRequest env c meth path body w)"
  by (simp add: do_raw_def split: sum.splits option.splits prod.splits)

lemma do_raw_answer:
  "fst (do_raw env c meth path body codes result wrapErr w) =
     (case fst (doRequest env c meth path body w) of
        Inl err \<Rightarrow> (Some (Wrapf wrapErr err), result)
      | Inr resp \<Rightarrow> outcome (json_Unmarshal env) (json_Decode env) codes result wrapErr resp)"
  by (simp add: do_raw_def io_ReadAll_def outcome_def statusIn_set
           split: sum.splits option.splits prod.splits)

lemma do_filt_log:
  "snd (do_filt env c ctx meth path codes result wrapErr w) =
     (case http_NewRequest_check env ctx meth path of
        Some err \<Rightarrow> w
      | None \<Rightarrow>
          w @ [HttpDo (httpClient c)
                 \<lparr>Request_ctx = ctx, Request_Method = meth, Request_URL = path,
                  Request_Body = None, Request_ContentType = None\<rparr>])"
  by (simp add: do_filt_def http_NewRequestWithContext_def http_Client_Do_def
           split: sum.splits option.splits prod.splits)

lemma do_filt_answer:
  "fst (do_filt env c ctx meth path codes result wrapErr w) =
     (case http_NewRequest_check env ctx meth path of
        Some err \<Rightarrow> (Some (Wrapf wrapErr (Ext err)), result)
      | None \<Rightarrow>
          (case http_Do env w (httpClient c)
                  \<lparr>Request_ctx = ctx, Request_Method = meth, Request_URL = path,
                   Request_Body = None, Request_ContentType = None\<rparr> of
             Inl err \<Rightarrow> (Some (Wrapf wrapErr (Ext err)), result)
           | Inr resp \<Rightarrow>
               outcome (json_Unmarshal env) (json_Decode env) codes result wrapErr resp))"
  by (simp add: do_filt_def http_NewRequestWithContext_def http_Client_Do_def io_ReadAll_def
        outcome_def statusIn_set split: sum.splits option.splits prod.splits)

text \<open>The same, when the transport delivers a response.\<close>

lemma do_hmac_delivers:
  assumes "hmac_DoRequest env w (client c) meth path body = Inr resp"
  shows "do_hmac env c meth path body codes result wrapErr w =
           (outcome (json_Unmarshal env) (hmac_ParseJSONResponse env) codes result wrapErr resp,
            w @ [HmacDoRequest (client c) meth path body])"
  using assms by (simp add: prod_eq_iff do_hmac_log do_hmac_answer)

lemma do_raw_delivers:
  assumes "doRequest env c meth path body w = (Inr resp, w')"
  shows "do_raw env c meth path body codes result wrapErr w =
           (outcome (json_Unmarshal env) (json_Decode env) codes result wrapErr resp, w')"
  using assms by (simp add: prod_eq_iff do_raw_log do_raw_answer)

lemma do_filt_delivers:
  assumes "http_NewRequest_check env ctx meth path = None"
    and "http_Do env w (httpClient c)
           \<lparr>Request_ctx = ctx, Request_Method = meth, Request_URL = path,
            Request_Body = None, Request_ContentType = None\<rparr> = Inr resp"
  shows "do_filt env c ctx meth path codes result wrapErr w =
           (outcome (json_Unmarshal env) (json_Decode env) codes result wrapErr resp,
            w @ [HttpDo (httpClient c)
                   \<lparr>Request_ctx = ctx, Request_Method = meth, Request_URL = path,
                    Request_Body = None, Request_ContentType = None\<rparr>])"
  using assms by (simp add: prod_eq_iff do_filt_log do_filt_answer)

lemmas op_defs_hmac =
  ListMails_hmac_def GetMail_hmac_def ListTemplates_hmac_def GetTemplate_hmac_def
  ListAttachments_hmac_def GetAttachment_hmac_def

lemmas op_defs_raw =
  ListMails_raw_def GetMail_raw_def ListTemplates_raw_def GetTemplate_raw_def
  ListAttachments_raw_def GetAttachment_raw_def

lemmas op_defs_filt =
  ListMails_filt_def ListMailsWithQuery_filt_def GetMail_filt_def
  ListTemplates_filt_def ListTemplatesWithQuery_filt_def GetTemplate_filt_def
  ListAttachments_filt_def ListAttachmentsWithQuery_filt_def GetAttachment_filt_def

text \<open>
  Every operation either fails on its own, leaving the world as it was, or is a call of
  \<open>do\<close> for a GET that accepts the status 200 alone, followed by the common ending
  \<open>if err != nil { return nil, err }; return &result, nil\<close>.
\<close>

lemma call_hmac_form:
  "(\<exists>e. call_hmac env c ctx k w = ((None, Some (Errorf e)), w)) \<or>
   (\<exists>path wrapErr. call_hmac env c ctx k w =
      returned (do_hmac env c ''GET'' path None [200] (Some (zero_value env)) wrapErr w))"
  by (cases k) (auto simp: call_hmac_def op_defs_hmac Let_def MethodGet_def StatusOK_def)

lemma call_raw_form:
  "(\<exists>e. call_raw env c ctx k w = ((None, Some (Errorf e)), w)) \<or>
   (\<exists>path wrapErr. call_raw env c ctx k w =
      returned (do_raw env c ''GET'' path None [200] (Some (zero_value env)) wrapErr w))"
  by (cases k) (auto simp: call_raw_def op_defs_raw Let_def MethodGet_def StatusOK_def)

lemma call_filt_form:
  "(\<exists>e. call_filt env c ctx k w = ((None, Some (Errorf e)), w)) \<or>
   (\<exists>path wrapErr. call_filt env c ctx k w =
      returned (do_filt env c ctx ''GET'' path [200] (Some (zero_value env)) wrapErr w))"
  by (cases k) (auto simp: call_filt_def op_defs_filt Let_def MethodGet_def StatusOK_def)

lemma call_hmac_does:
  assumes "k \<notin> {GetMail [], GetTemplate [], GetAttachment []}"
  shows "\<exists>path prefix. call_hmac env c ctx k w = returned (do_hmac env c ''GET'' path None [200] (Some (zero_value env)) prefix w)"
  using assms
  by (cases k) (auto simp: call_hmac_def op_defs_hmac Let_def MethodGet_def StatusOK_def)

lemma call_hmac_answered:
  assumes "k \<notin> {GetMail [], GetTemplate [], GetAttachment []}"
    and "\<forall>hc m p b. hmac_DoRequest env w hc m p b = Inr resp"
  shows "\<exists>prefix n. call_hmac env c ctx k w =
           ((case outcome (json_Unmarshal env) (hmac_ParseJSONResponse env) [200]
                    (Some (zero_value env)) prefix resp of
               (e, r) \<Rightarrow> (if e = None then r else None, e)),
            w @ [n])"
proof -
  from call_hmac_does [OF assms(1)]
  obtain path prefix where eq: "call_hmac env c ctx k w = returned (do_hmac env c ''GET'' path None [200] (Some (zero_value env)) prefix w)"
    by blast
  have "\<exists>n. do_hmac env c ''GET'' path None [200] (Some (zero_value env)) prefix w =
      (outcome (json_Unmarshal env) (hmac_ParseJSONResponse env) [200] (Some (zero_value env)) prefix resp,
       w @ [n])"
    using do_hmac_delivers [of env w c "''GET''" path None resp] assms(2) by blast
  then obtain n where "do_hmac env c ''GET'' path None [200] (Some (zero_value env)) prefix w =
      (outcome (json_Unmarshal env) (hmac_ParseJSONResponse env) [200] (Some (zero_value env)) prefix resp,
       w @ [n])"
    by blast
  then have "call_hmac env c ctx k w =
      ((case outcome (json_Unmarshal env) (hmac_ParseJSONResponse env) [200]
               (Some (zero_value env)) prefix resp of
          (e, r) \<Rightarrow> (if e = None then r else None, e)),
       w @ [n])"
    unfolding eq finish_eq by (simp split: prod.splits)
  then show ?thesis by blast
qed

lemma call_raw_does:
  assumes "k \<notin> {GetMail [], GetTemplate [], GetAttachment []}"
  shows "\<exists>path prefix. call_raw env c ctx k w = returned (do_raw env c ''GET'' path None [200] (Some (zero_value env)) prefix w)"
  using assms
  by (cases k) (auto simp: call_raw_def op_defs_raw Let_def MethodGet_def StatusOK_def)

lemma call_raw_answered:
  assumes "k \<notin> {GetMail [], GetTemplate [], GetAttachment []}"
    and "\<forall>m u. http_NewRequest_check env Background m u = None"
    and "\<forall>hc req. http_Do env w hc req = Inr resp"
  shows "\<exists>prefix n. call_raw env c ctx k w =
           ((case outcome (json_Unmarshal env) (json_Decode env) [200]
                    (Some (zero_value env)) prefix resp of
               (e, r) \<Rightarrow> (if e = None then r else None, e)),
            w @ [n])"
proof -
  from call_raw_does [OF assms(1)]
  obtain path prefix where eq: "call_raw env c ctx k w = returned (do_raw env c ''GET'' path None [200] (Some (zero_value env)) prefix w)"
    by blast
  have "\<exists>n. do_raw env c ''GET'' path None [200] (Some (zero_value env)) prefix w =
      (outcome (json_Unmarshal env) (json_Decode env) [200] (Some (zero_value env)) prefix resp,
       w @ [n])"
    using do_raw_delivers [OF doRequest_sends, of env "''GET''" c path w resp] assms(2,3) by blast
  then obtain n where "do_raw env c ''GET'' path None [200] (Some (zero_value env)) prefix w =
      (outcome (json_Unmarshal env) (json_Decode env) [200] (Some (zero_value env)) prefix resp,
       w @ [n])"
    by blast
  then have "call_raw env c ctx k w =
      ((case outcome (json_Unmarshal env) (json_Decode env) [200]
               (Some (zero_value env)) prefix resp of
          (e, r) \<Rightarrow> (if e = None then r else None, e)),
       w @ [n])"
    unfolding eq finish_eq by (simp split: prod.splits)
  then show ?thesis by blast
qed

lemma call_filt_does:
  assumes "kf \<notin> {GetMailF [], GetTemplateF [], GetAttachmentF []}"
  shows "\<exists>path prefix. call_filt env c ctx kf w = returned (do_filt env c ctx ''GET'' path [200] (Some (zero_value env)) prefix w)"
  using assms
  by (cases kf) (auto simp: call_filt_def op_defs_filt Let_def MethodGet_def StatusOK_def)

lemma call_filt_answered:
  assumes "kf \<notin> {GetMailF [], GetTemplateF [], GetAttachmentF []}"
    and "\<forall>m u. http_NewRequest_check env ctx m u = None"
    and "\<forall>hc req. http_Do env w hc req = Inr resp"
  shows "\<exists>prefix n. call_filt env c ctx kf w =
           ((case outcome (json_Unmarshal env) (json_Decode env) [200]
                    (Some (zero_value env)) prefix resp of
               (e, r) \<Rightarrow> (if e = None then r else None, e)),
            w @ [n])"
proof -
  from call_filt_does [OF assms(1)]
  obtain path prefix where eq: "call_filt env c ctx kf w = returned (do_filt env c ctx ''GET'' path [200] (Some (zero_value env)) prefix w)"
    by blast
  have "\<exists>n. do_filt env c ctx ''GET'' path [200] (Some (zero_value env)) prefix w =
      (outcome (json_Unmarshal env) (json_Decode env) [200] (Some (zero_value env)) prefix resp,
       w @ [n])"
    using do_filt_delivers [of env ctx "''GET''" path w c resp] assms(2,3) by blast
  then obtain n where "do_filt env c ctx ''GET'' path [200] (Some (zero_value env)) prefix w =
      (outcome (json_Unmarshal env) (json_Decode env) [200] (Some (zero_value env)) prefix resp,
       w @ [n])"
    by blast
  then have "call_filt env c ctx kf w =
      ((case outcome (json_Unmarshal env) (json_Decode env) [200]
               (Some (zero_value env)) prefix resp of
          (e, r) \<Rightarrow> (if e = None then r else None, e)),
       w @ [n])"
    unfolding eq finish_eq by (simp split: prod.splits)
  then show ?thesis by blast
qed


text \<open>The variable behind the pointer \<open>result\<close> is still there after \<open>do\<close>.\<close>

lemma do_hmac_target:
  "\<exists>y. snd (fst (do_hmac env c meth path body codes (Some t) wrapErr w)) = Some y"
  by (simp add: do_hmac_answer outcome_target split: sum.splits)

lemma do_raw_target:
  "\<exists>y. snd (fst (do_raw env c meth path body codes (Some t) wrapErr w)) = Some y"
  by (simp add: do_raw_answer outcome_target split: sum.splits)

lemma do_filt_target:
  "\<exists>y. snd (fst (do_filt env c ctx meth path codes (Some t) wrapErr w)) = Some y"
  by (simp add: do_filt_answer outcome_target split: sum.splits option.splits)

lemma sample_get_missing_raw:
  \<open>call_raw sample_env sample_client Background (GetMail ''missing'') [] =
     ((None, Some (API \<lparr>StatusCode = 404, Message = ''Y'', Body = ''{"message":"Y"}''\<rparr>)),
      [HttpDo \<lparr>Client_Timeout = 10000000000\<rparr>
         \<lparr>Request_ctx = Background, Request_Method = ''GET'',
          Request_URL = ''http://h:1/api/v1/mails/missing'', Request_Body = None,
          Request_ContentType = None\<rparr>])\<close>
  by (simp add: call_raw_def GetMail_raw_def do_raw_def doRequest_def http_NewRequest_def
        http_NewRequestWithContext_def http_Client_Do_def sample_env_def sample_client_def
        sample_server_def sample_Unmarshal_def parseErrorResponse_def errorResp_zero_def
        io_ReadAll_def pathSeg_def PathEscape_def shouldEscape_def apiPathPrefix_def
        MethodGet_def StatusOK_def Let_def)

lemma sample_get_found_raw:
  \<open>call_raw sample_env sample_client Background (GetMail ''m1'') [] =
     ((Some ''{}'', None),
      [HttpDo \<lparr>Client_Timeout = 10000000000\<rparr>
         \<lparr>Request_ctx = Background, Request_Method = ''GET'',
          Request_URL = ''http://h:1/api/v1/mails/m1'', Request_Body = None,
          Request_ContentType = None\<rparr>])\<close>
  by (simp add: call_raw_def GetMail_raw_def do_raw_def doRequest_def http_NewRequest_def
        http_NewRequestWithContext_def http_Client_Do_def sample_env_def sample_client_def
        sample_server_def sample_decode_def
        io_ReadAll_def pathSeg_def PathEscape_def shouldEscape_def apiPathPrefix_def
        MethodGet_def StatusOK_def Let_def)

text \<open>
  C5. The API error built for a response keeps the status code it was given and the body
  it was given, whichever way the message was derived. Whenever the transport answers
  the request of \<open>do\<close> with a response whose status is not accepted, \<open>do\<close> makes
  that one call and returns an API error with the status code of the response and, for
  its body, the bytes the response's body delivered; this in all three revisions (in
  the plain ones once \<open>net/http\<close> has accepted the request, and with or without a
  request body). So does every operation of every revision, which accept 200 alone,
  when the transport answers with such a response: it returns a nil result and that
  API error (a get operation only when its identifier is not empty).
\<close>

theorem api_error_keeps_status_and_body:
  "StatusCode (parseErrorResponse dec sc body) = sc
   \<and> Body (parseErrorResponse dec sc body) = body
   \<and> (hmac_DoRequest env w (client ch) meth path rb = Inr resp
        \<and> Response_StatusCode resp \<notin> set codes
      \<longrightarrow> (\<exists>a. do_hmac env ch meth path rb codes result wrapErr w =
                 ((Some (API a), result), w @ [HmacDoRequest (client ch) meth path rb])
              \<and> StatusCode a = Response_StatusCode resp \<and> Body a = Response_Body resp))
   \<and> (http_NewRequest_check env Background meth (baseURL c @ path) = None
        \<and> http_Do env w (httpClient c)
             \<lparr>Request_ctx = Background, Request_Method = meth, Request_URL = baseURL c @ path,
              Request_Body = None, Request_ContentType = None\<rparr> = Inr resp
        \<and> Response_StatusCode resp \<notin> set codes
      \<longrightarrow> (\<exists>a. do_raw env c meth path None codes result wrapErr w =
                 ((Some (API a), result),
                  w @ [HttpDo (httpClient c)
                         \<lparr>Request_ctx = Background, Request_Method = meth,
                          Request_URL = baseURL c @ path, Request_Body = None,
                          Request_ContentType = None\<rparr>])
              \<and> StatusCode a = Response_StatusCode resp \<and> Body a = Response_Body resp))
   \<and> (json_Marshal env b = Inr raw
        \<and> http_NewRequest_check env Background meth (baseURL c @ path) = None
        \<and> http_Do env w (httpClient c)
             \<lparr>Request_ctx = Background, Request_Method = meth, Request_URL = baseURL c @ path,
              Request_Body = Some raw, Request_ContentType = Some ''application/json''\<rparr>
           = Inr resp
        \<and> Response_StatusCode resp \<notin> set codes
      \<longrightarrow> (\<exists>a. do_raw env c meth path (Some b) codes result wrapErr w =
                 ((Some (API a), result),
                  w @ [HttpDo (httpClient c)
                         \<lparr>Request_ctx = Background, Request_Method = meth,
                          Request_URL = baseURL c @ path, Request_Body = Some raw,
                          Request_ContentType = Some ''application/json''\<rparr>])
              \<and> StatusCode a = Response_StatusCode resp \<and> Body a = Response_Body resp))
   \<and> (http_NewRequest_check env ctx meth path = None
        \<and> http_Do env w (httpClient c)
             \<lparr>Request_ctx = ctx, Request_Method = meth, Request_URL = path,
              Request_Body = None, Request_ContentType = None\<rparr> = Inr resp
        \<and> Response_StatusCode resp \<notin> set codes
      \<longrightarrow> (\<exists>a. do_filt env c ctx meth path codes result wrapErr w =
                 ((Some (API a), result),
                  w @ [HttpDo (httpClient c)
                         \<lparr>Request_ctx = ctx, Request_Method = meth, Request_URL = path,
                          Request_Body = None, Request_ContentType = None\<rparr>])
              \<and> StatusCode a = Response_StatusCode resp \<and> Body a = Response_Body resp))
   \<and> (k \<notin> {GetMail [], GetTemplate [], GetAttachment []}
        \<and> (\<forall>hc m p bd. hmac_DoRequest env w hc m p bd = Inr resp)
        \<and> Response_StatusCode resp \<noteq> 200
      \<longrightarrow> (\<exists>a n. call_hmac env ch ctx k w = ((None, Some (API a)), w @ [n])
              \<and> StatusCode a = Response_StatusCode resp \<and> Body a = Response_Body resp))
   \<and> (k \<notin> {GetMail [], GetTemplate [], GetAttachment []}
        \<and> (\<forall>m u. http_NewRequest_check env Background m u = None)
        \<and> (\<forall>hc req. http_Do env w hc req = Inr resp)
        \<and> Response_StatusCode resp \<noteq> 200
      \<longrightarrow> (\<exists>a n. call_raw env c ctx k w = ((None, Some (API a)), w @ [n])
              \<and> StatusCode a = Response_StatusCode resp \<and> Body a = Response_Body resp))
   \<and> (kf \<notin> {GetMailF [], GetTemplateF [], GetAttachmentF []}
        \<and> (\<forall>m u. http_NewRequest_check env ctx m u = None)
        \<and> (\<forall>hc req. http_Do env w hc req = Inr resp)
        \<and> Response_StatusCode resp \<noteq> 200
      \<longrightarrow> (\<exists>a n. call_filt env c ctx kf w = ((None, Some (API a)), w @ [n])
              \<and> StatusCode a = Response_StatusCode resp \<and> Body a = Response_Body resp))"
proof (intro conjI impI; (elim conjE)?)
  show "StatusCode (parseErrorResponse dec sc body) = sc"
    by (rule parseErrorResponse_StatusCode)
  show "Body (parseErrorResponse dec sc body) = body"
    by (rule parseErrorResponse_Body)
next
  assume "hmac_DoRequest env w (client ch) meth path rb = Inr resp"
    and "Response_StatusCode resp \<notin> set codes"
  then show "\<exists>a. do_hmac env ch meth path rb codes result wrapErr w =
        ((Some (API a), result), w @ [HmacDoRequest (client ch) meth path rb])
      \<and> StatusCode a = Response_StatusCode resp \<and> Body a = Response_Body resp"
    by (simp add: do_hmac_delivers outcome_rejected parseErrorResponse_StatusCode
          parseErrorResponse_Body)
next
  assume "http_NewRequest_check env Background meth (baseURL c @ path) = None"
    and "http_Do env w (httpClient c)
      \<lparr>Request_ctx = Background, Request_Method = meth, Request_URL = baseURL c @ path,
       Request_Body = None, Request_ContentType = None\<rparr> = Inr resp"
    and "Response_StatusCode resp \<notin> set codes"
  then show "\<exists>a. do_raw env c meth path None codes result wrapErr w =
        ((Some (API a), result),
         w @ [HttpDo (httpClient c)
                \<lparr>Request_ctx = Background, Request_Method = meth,
                 Request_URL = baseURL c @ path, Request_Body = None,
                 Request_ContentType = None\<rparr>])
      \<and> StatusCode a = Response_StatusCode resp \<and> Body a = Response_Body resp"
    by (simp add: do_raw_delivers [OF doRequest_sends] outcome_rejected
          parseErrorResponse_StatusCode parseErrorResponse_Body)
next
  assume "json_Marshal env b = Inr raw"
    and "http_NewRequest_check env Background meth (baseURL c @ path) = None"
    and "http_Do env w (httpClient c)
      \<lparr>Request_ctx = Background, Request_Method = meth, Request_URL = baseURL c @ path,
       Request_Body = Some raw, Request_ContentType = Some ''application/json''\<rparr> = Inr resp"
    and "Response_StatusCode resp \<notin> set codes"
  then show "\<exists>a. do_raw env c meth path (Some b) codes result wrapErr w =
        ((Some (API a), result),
         w @ [HttpDo (httpClient c)
                \<lparr>Request_ctx = Background, Request_Method = meth,
                 Request_URL = baseURL c @ path, Request_Body = Some raw,
                 Request_ContentType = Some ''application/json''\<rparr>])
      \<and> StatusCode a = Response_StatusCode resp \<and> Body a = Response_Body resp"
    by (simp add: do_raw_delivers [OF doRequest_sends_body] outcome_rejected
          parseErrorResponse_StatusCode parseErrorResponse_Body)
next
  assume "http_NewRequest_check env ctx meth path = None"
    and "http_Do env w (httpClient c)
      \<lparr>Request_ctx = ctx, Request_Method = meth, Request_URL = path,
       Request_Body = None, Request_ContentType = None\<rparr> = Inr resp"
    and "Response_StatusCode resp \<notin> set codes"
  then show "\<exists>a. do_filt env c ctx meth path codes result wrapErr w =
        ((Some (API a), result),
         w @ [HttpDo (httpClient c)
                \<lparr>Request_ctx = ctx, Request_Method = meth, Request_URL = path,
                 Request_Body = None, Request_ContentType = None\<rparr>])
      \<and> StatusCode a = Response_StatusCode resp \<and> Body a = Response_Body resp"
    by (simp add: do_filt_delivers outcome_rejected parseErrorResponse_StatusCode
          parseErrorResponse_Body)
next
  assume "k \<notin> {GetMail [], GetTemplate [], GetAttachment []}"
    and "\<forall>hc m p bd. hmac_DoRequest env w hc m p bd = Inr resp"
    and st: "Response_StatusCode resp \<noteq> 200"
  from call_hmac_answered [OF this(1,2), of ch ctx] st
  show "\<exists>a n. call_hmac env ch ctx k w = ((None, Some (API a)), w @ [n])
      \<and> StatusCode a = Response_StatusCode resp \<and> Body a = Response_Body resp"
    by (auto simp: outcome_rejected parseErrorResponse_StatusCode parseErrorResponse_Body)
next
  assume "k \<notin> {GetMail [], GetTemplate [], GetAttachment []}"
    and "\<forall>m u. http_NewRequest_check env Background m u = None"
    and "\<forall>hc req. http_Do env w hc req = Inr resp"
    and st: "Response_StatusCode resp \<noteq> 200"
  from call_raw_answered [OF this(1,2,3), of c ctx] st
  show "\<exists>a n. call_raw env c ctx k w = ((None, Some (API a)), w @ [n])
      \<and> StatusCode a = Response_StatusCode resp \<and> Body a = Response_Body resp"
    by (auto simp: outcome_rejected parseErrorResponse_StatusCode parseErrorResponse_Body)
next
  assume "kf \<notin> {GetMailF [], GetTemplateF [], GetAttachmentF []}"
    and "\<forall>m u. http_NewRequest_check env ctx m u = None"
    and "\<forall>hc req. http_Do env w hc req = Inr resp"
    and st: "Response_StatusCode resp \<noteq> 200"
  from call_filt_answered [OF this(1,2,3), of c] st
  show "\<exists>a n. call_filt env c ctx kf w = ((None, Some (API a)), w @ [n])
      \<and> StatusCode a = Response_StatusCode resp \<and> Body a = Response_Body resp"
    by (auto simp: outcome_rejected parseErrorResponse_StatusCode parseErrorResponse_Body)
qed

theorem api_error_keeps_status_and_body_witness:
  \<open>(\<exists>a n. call_hmac (answering missing_response) sample_client_hmac Background
              (GetMail ''m1'') [] = ((None, Some (API a)), [n])
          \<and> StatusCode a = 404 \<and> Body a = ''{"message":"Y"}'')
   \<and> (\<exists>a n. call_raw (answering missing_response) sample_client Background
              (GetMail ''m1'') [] = ((None, Some (API a)), [n])
          \<and> StatusCode a = 404 \<and> Body a = ''{"message":"Y"}'')
   \<and> (\<exists>a n. call_filt (answering missing_response) sample_client Background
              (ListMailsWithQueryF ''page=1'') [] = ((None, Some (API a)), [n])
          \<and> StatusCode a = 404 \<and> Body a = ''{"message":"Y"}'')
   \<and> (\<exists>a. do_hmac (answering missing_response) sample_client_hmac ''GET'' ''/api/v1/mails''
             None [200] (Some []) ''failed to list mails'' []
           = ((Some (API a), Some []),
              [HmacDoRequest (client sample_client_hmac) ''GET'' ''/api/v1/mails'' None])
          \<and> StatusCode a = 404 \<and> Body a = ''{"message":"Y"}'')
   \<and> (\<exists>a. do_filt (answering missing_response) sample_client Background ''GET''
             ''http://h:1/api/v1/mails'' [200] (Some []) ''failed to list mails'' []
           = ((Some (API a), Some []),
              [HttpDo (httpClient sample_client)
                 (GET_request Background ''http://h:1/api/v1/mails'')])
          \<and> StatusCode a = 404 \<and> Body a = ''{"message":"Y"}'')\<close>
proof -
  let ?env = "answering missing_response"
  note inst = api_error_keeps_status_and_body
    [where dec = sample_Unmarshal and sc = 0 and body = "[]" and env = ?env and w = "[]"
       and ch = sample_client_hmac and c = sample_client and ctx = Background
       and meth = "''GET''" and rb = None and resp = missing_response and codes = "[200]"
       and result = "Some []" and wrapErr = "''failed to list mails''" and b = "[]"
       and raw = "[]" and k = "GetMail ''m1''" and kf = "ListMailsWithQueryF ''page=1''"]
  have hm: "\<forall>hc m p bd. hmac_DoRequest ?env [] hc m p bd = Inr missing_response"
    by (simp add: answering_def)
  have hm1: "hmac_DoRequest ?env [] (client sample_client_hmac) ''GET'' ''/api/v1/mails'' None
      = Inr missing_response"
    by (simp add: answering_def)
  have chk: "\<forall>m u. http_NewRequest_check ?env Background m u = None"
    by (simp add: answering_def sample_env_def)
  have chk1: "http_NewRequest_check ?env Background ''GET'' ''http://h:1/api/v1/mails'' = None"
    by (simp add: answering_def sample_env_def)
  have send: "\<forall>hc req. http_Do ?env [] hc req = Inr missing_response"
    by (simp add: answering_def)
  have send1: "http_Do ?env [] (httpClient sample_client)
      \<lparr>Request_ctx = Background, Request_Method = ''GET'',
       Request_URL = ''http://h:1/api/v1/mails'', Request_Body = None,
       Request_ContentType = None\<rparr> = Inr missing_response"
    by (simp add: answering_def)
  have st: "Response_StatusCode missing_response \<noteq> 200"
    "Response_StatusCode missing_response \<notin> set [200]"
    by (simp_all add: missing_response_def)
  have vals: "Response_StatusCode missing_response = 404"
    \<open>Response_Body missing_response = ''{"message":"Y"}''\<close>
    by (simp_all add: missing_response_def)
  have k: "GetMail ''m1'' \<notin> {GetMail [], GetTemplate [], GetAttachment []}"
    "ListMailsWithQueryF ''page=1'' \<notin> {GetMailF [], GetTemplateF [], GetAttachmentF []}"
    by simp_all
  have "\<exists>a n. call_hmac ?env sample_client_hmac Background (GetMail ''m1'') []
        = ((None, Some (API a)), [] @ [n])
      \<and> StatusCode a = Response_StatusCode missing_response
      \<and> Body a = Response_Body missing_response"
    using inst [where path = "[]"] k hm st by blast
  then have a: \<open>\<exists>a n. call_hmac ?env sample_client_hmac Background (GetMail ''m1'') []
        = ((None, Some (API a)), [n])
      \<and> StatusCode a = 404 \<and> Body a = ''{"message":"Y"}''\<close>
    by (simp add: vals)
  have "\<exists>a n. call_raw ?env sample_client Background (GetMail ''m1'') []
        = ((None, Some (API a)), [] @ [n])
      \<and> StatusCode a = Response_StatusCode missing_response
      \<and> Body a = Response_Body missing_response"
    using inst [where path = "[]"] k chk send st by blast
  then have b: \<open>\<exists>a n. call_raw ?env sample_client Background (GetMail ''m1'') []
        = ((None, Some (API a)), [n])
      \<and> StatusCode a = 404 \<and> Body a = ''{"message":"Y"}''\<close>
    by (simp add: vals)
  have "\<exists>a n. call_filt ?env sample_client Background (ListMailsWithQueryF ''page=1'') []
        = ((None, Some (API a)), [] @ [n])
      \<and> StatusCode a = Response_StatusCode missing_response
      \<and> Body a = Response_Body missing_response"
    using inst [where path = "[]"] k chk send st by blast
  then have c: \<open>\<exists>a n. call_filt ?env sample_client Background
        (ListMailsWithQueryF ''page=1'') [] = ((None, Some (API a)), [n])
      \<and> StatusCode a = 404 \<and> Body a = ''{"message":"Y"}''\<close>
    by (simp add: vals)
  have "\<exists>a. do_hmac ?env sample_client_hmac ''GET'' ''/api/v1/mails'' None [200] (Some [])
          ''failed to list mails'' []
        = ((Some (API a), Some []),
           [] @ [HmacDoRequest (client sample_client_hmac) ''GET'' ''/api/v1/mails'' None])
      \<and> StatusCode a = Response_StatusCode missing_response
      \<and> Body a = Response_Body missing_response"
    using inst [where path = "''/api/v1/mails''"] hm1 st by blast
  then have d: \<open>\<exists>a. do_hmac ?env sample_client_hmac ''GET'' ''/api/v1/mails'' None [200]
          (Some []) ''failed to list mails'' []
        = ((Some (API a), Some []),
           [HmacDoRequest (client sample_client_hmac) ''GET'' ''/api/v1/mails'' None])
      \<and> StatusCode a = 404 \<and> Body a = ''{"message":"Y"}''\<close>
    by (simp add: vals)
  have "\<exists>a. do_filt ?env sample_client Background ''GET'' ''http://h:1/api/v1/mails'' [200]
          (Some []) ''failed to list mails'' []
        = ((Some (API a), Some []),
           [] @ [HttpDo (httpClient sample_client)
                   \<lparr>Request_ctx = Background, Request_Method = ''GET'',
                    Request_URL = ''http://h:1/api/v1/mails'', Request_Body = None,
                    Request_ContentType = None\<rparr>])
      \<and> StatusCode a = Response_StatusCode missing_response
      \<and> Body a = Response_Body missing_response"
    using inst [where path = "''http://h:1/api/v1/mails''"] chk1 send1 st by blast
  then have e: \<open>\<exists>a. do_filt ?env sample_client Background ''GET''
          ''http://h:1/api/v1/mails'' [200] (Some []) ''failed to list mails'' []
        = ((Some (API a), Some []),
           [HttpDo (httpClient sample_client)
              (GET_request Background ''http://h:1/api/v1/mails'')])
      \<and> StatusCode a = 404 \<and> Body a = ''{"message":"Y"}''\<close>
    by (simp add: vals GET_request_def)
  from a b c d e show ?thesis by blast
qed




text \<open>
  C9. Every exported operation returns exactly one of a result and an error: the result
  is nil if and only if the error is not. This holds for \<open>NewClient\<close> of the plain
  revisions and of the HMAC revision, and for every list and get operation of the three
  revisions, on every input and whatever the transport does.
\<close>

theorem exactly_one_of_result_and_error:
  "((fst (NewClient config) = None) = (snd (NewClient config) \<noteq> None))
   \<and> ((fst (NewClient_hmac config_h) = None) = (snd (NewClient_hmac config_h) \<noteq> None))
   \<and> ((fst (fst (call_hmac env ch ctx k w)) = None)
        = (snd (fst (call_hmac env ch ctx k w)) \<noteq> None))
   \<and> ((fst (fst (call_raw env c ctx k w)) = None)
        = (snd (fst (call_raw env c ctx k w)) \<noteq> None))
   \<and> ((fst (fst (call_filt env c ctx kf w)) = None)
        = (snd (fst (call_filt env c ctx kf w)) \<noteq> None))"
proof (intro conjI)
  show "(fst (NewClient config) = None) = (snd (NewClient config) \<noteq> None)"
    by (simp add: NewClient_def Let_def)
  show "(fst (NewClient_hmac config_h) = None) = (snd (NewClient_hmac config_h) \<noteq> None)"
    by (simp add: NewClient_hmac_def Let_def)
  show "(fst (fst (call_hmac env ch ctx k w)) = None)
      = (snd (fst (call_hmac env ch ctx k w)) \<noteq> None)"
    using call_hmac_form [of env ch ctx k w] do_hmac_target [of env ch]
    by (elim disjE exE) (simp_all add: finish_eq)
  show "(fst (fst (call_raw env c ctx k w)) = None)
      = (snd (fst (call_raw env c ctx k w)) \<noteq> None)"
    using call_raw_form [of env c ctx k w] do_raw_target [of env c]
    by (elim disjE exE) (simp_all add: finish_eq)
  show "(fst (fst (call_filt env c ctx kf w)) = None)
      = (snd (fst (call_filt env c ctx kf w)) \<noteq> None)"
    using call_filt_form [of env c ctx kf w] do_filt_target [of env c ctx]
    by (elim disjE exE) (simp_all add: finish_eq)
qed

theorem exactly_one_of_result_and_error_witness:
  "fst (fst (call_raw sample_env sample_client Background (GetMail ''m1'') [])) \<noteq> None
   \<and> snd (fst (call_raw sample_env sample_client Background (GetMail ''m1'') [])) = None
   \<and> fst (fst (call_raw sample_env sample_client Background (GetMail ''missing'') [])) = None
   \<and> snd (fst (call_raw sample_env sample_client Background (GetMail ''missing'') [])) \<noteq> None"
proof -
  have a: "snd (fst (call_raw sample_env sample_client Background (GetMail ''m1'') [])) = None"
    by (simp add: sample_get_found_raw)
  have b: "fst (fst (call_raw sample_env sample_client Background (GetMail ''missing'') [])) = None"
    by (simp add: sample_get_missing_raw)
  from a exactly_one_of_result_and_error
         [where env = sample_env and c = sample_client and ctx = Background
            and k = "GetMail ''m1''" and w = "[]"]
  have "fst (fst (call_raw sample_env sample_client Background (GetMail ''m1'') [])) \<noteq> None"
    by blast
  moreover from b exactly_one_of_result_and_error
         [where env = sample_env and c = sample_client and ctx = Background
            and k = "GetMail ''missing''" and w = "[]"]
  have "snd (fst (call_raw sample_env sample_client Background (GetMail ''missing'') [])) \<noteq> None"
    by blast
  ultimately show ?thesis using a b by simp
qed

text \<open>
  C2. With the empty string as identifier, and whatever the context, \<open>GetMail\<close>,
  \<open>GetTemplate\<close> and \<open>GetAttachment\<close> of every revision return a nil result and the
  error whose text is \<open>mail id is required\<close>, \<open>template id is required\<close> or
  \<open>attachment id is required\<close>, and leave the world as it was: the transport receives
  no call. The error is made by \<open>fmt.Errorf\<close>; it is not an API error.
\<close>

theorem get_with_empty_id_fails_before_any_call:
  "GetMail_hmac env ch ctx [] w = ((None, Some (Errorf ''mail id is required'')), w)
   \<and> GetTemplate_hmac env ch ctx [] w = ((None, Some (Errorf ''template id is required'')), w)
   \<and> GetAttachment_hmac env ch ctx [] w =
        ((None, Some (Errorf ''attachment id is required'')), w)
   \<and> GetMail_raw env c ctx [] w = ((None, Some (Errorf ''mail id is required'')), w)
   \<and> GetTemplate_raw env c ctx [] w = ((None, Some (Errorf ''template id is required'')), w)
   \<and> GetAttachment_raw env c ctx [] w =
        ((None, Some (Errorf ''attachment id is required'')), w)
   \<and> GetMail_filt env c ctx [] w = ((None, Some (Errorf ''mail id is required'')), w)
   \<and> GetTemplate_filt env c ctx [] w = ((None, Some (Errorf ''template id is required'')), w)
   \<and> GetAttachment_filt env c ctx [] w =
        ((None, Some (Errorf ''attachment id is required'')), w)
   \<and> error_text (Errorf msg) = msg
   \<and> IsAPIError (Some (Errorf msg)) = (None, False)"
  by (simp add: GetMail_hmac_def GetTemplate_hmac_def GetAttachment_hmac_def
        GetMail_raw_def GetTemplate_raw_def GetAttachment_raw_def
        GetMail_filt_def GetTemplate_filt_def GetAttachment_filt_def IsAPIError_def)

theorem get_with_empty_id_fails_before_any_call_witness:
  "GetMail_raw sample_env sample_client Background [] [] =
     ((None, Some (Errorf ''mail id is required'')), [])
   \<and> GetTemplate_filt sample_env sample_client NilContext [] [] =
     ((None, Some (Errorf ''template id is required'')), [])
   \<and> GetAttachment_hmac sample_env sample_client_hmac (UserContext 1) [] [] =
     ((None, Some (Errorf ''attachment id is required'')), [])"
  using get_with_empty_id_fails_before_any_call
          [where env = sample_env and c = sample_client and ctx = Background and w = "[]"]
        get_with_empty_id_fails_before_any_call
          [where env = sample_env and c = sample_client and ctx = NilContext and w = "[]"]
        get_with_empty_id_fails_before_any_call
          [where env = sample_env and ch = sample_client_hmac and ctx = "UserContext 1"
             and w = "[]"]
  by simp

subsection \<open>Escaping and trimming\<close>

lemma of_char_less_256: "(of_char c :: nat) < 256"
  by (metis of_char_mod_256 mod_less_divisor zero_less_numeral)

lemma length_upperhex: "length upperhex = 16"
  by (simp add: upperhex_def)

lemma upperhex_hi: "upperhex ! ((of_char c :: nat) div 16) \<in> set upperhex"
proof -
  have "(of_char c :: nat) div 16 < 16"
    using of_char_less_256 [of c] by (simp add: less_mult_imp_div_less)
  then show ?thesis by (simp add: length_upperhex del: of_char_mod_256)
qed

lemma upperhex_lo: "upperhex ! ((of_char c :: nat) mod 16) \<in> set upperhex"
  by (rule nth_mem) (simp add: length_upperhex)

text \<open>
  A byte of an escaped string is \<open>%\<close>, a hexadecimal digit, the \<open>+\<close> that stands for a
  space in a query component, or a byte of the input that needs no escaping.
\<close>

lemma escape_bytes:
  "x \<in> set (escape s mode) \<Longrightarrow>
     x = CHR ''%'' \<or> x \<in> set upperhex \<or> (x = CHR ''+'' \<and> mode = encodeQueryComponent)
     \<or> (x \<in> set s \<and> \<not> shouldEscape x mode)"
proof (induction s)
  case Nil
  then show ?case by simp
next
  case (Cons c s)
  show ?case
    using Cons upperhex_hi [of c] upperhex_lo [of c]
    by (cases "shouldEscape c mode") (auto split: if_splits)
qed

lemma escape_excludes:
  assumes "shouldEscape x mode" and "x \<noteq> CHR ''%''" and "x \<notin> set upperhex"
    and "x \<noteq> CHR ''+''"
  shows "x \<notin> set (escape s mode)"
  using escape_bytes [of x s mode] assms by blast





lemma QueryEscape_no_ampersand: "CHR ''&'' \<notin> set (QueryEscape s)"
  unfolding QueryEscape_def
  by (rule escape_excludes) (simp_all add: shouldEscape_def upperhex_def)

lemma QueryEscape_no_equals: "CHR ''='' \<notin> set (QueryEscape s)"
  unfolding QueryEscape_def
  by (rule escape_excludes) (simp_all add: shouldEscape_def upperhex_def)

lemma QueryEscape_no_space: "CHR '' '' \<notin> set (QueryEscape s)"
  unfolding QueryEscape_def
  by (rule escape_excludes) (simp_all add: shouldEscape_def upperhex_def)

lemma QueryEscape_no_hash: "CHR ''#'' \<notin> set (QueryEscape s)"
  unfolding QueryEscape_def
  by (rule escape_excludes) (simp_all add: shouldEscape_def upperhex_def)



lemma TrimRight_slash: "strings_TrimRight (b @ ''/'') ''/'' = strings_TrimRight b ''/''"
  by (simp add: strings_TrimRight_def)

lemma TrimRight_no_trailing:
  "strings_TrimRight b cutset = [] \<or> last (strings_TrimRight b cutset) \<notin> set cutset"
proof (cases "dropWhile (\<lambda>c. c \<in> set cutset) (rev b)")
  case Nil
  then show ?thesis by (simp add: strings_TrimRight_def)
next
  case (Cons x xs)
  then have "x \<notin> set cutset"
    using hd_dropWhile [of "\<lambda>c. c \<in> set cutset" "rev b"] by simp
  with Cons show ?thesis by (simp add: strings_TrimRight_def)
qed




text \<open>
  C7. \<open>NewClient\<close> trims every trailing \<open>/\<close> from the base URL, and a base URL with
  one more \<open>/\<close> at its end trims to the same string. So whenever \<open>NewClient\<close> returns
  a client for \<open>b\<close> and a client for \<open>b/\<close>, the two clients are equal, their base
  URL is \<open>b\<close> without its trailing slashes, and every request and every operation
  gives the same result and sends the same requests with either. Both constructions do
  return a client when \<open>b\<close> is not empty (and, in the HMAC revision, the secret is not
  empty). The trimmed base URL never ends in \<open>/\<close>.
\<close>

theorem trailing_slash_is_stripped:
  "strings_TrimRight (b @ ''/'') ''/'' = strings_TrimRight b ''/''
   \<and> (strings_TrimRight b ''/'' = [] \<or> last (strings_TrimRight b ''/'') \<noteq> CHR ''/'')
   \<and> (NewClient (config\<lparr>BaseURL := b\<rparr>) = (Some c1, None)
        \<and> NewClient (config\<lparr>BaseURL := b @ ''/''\<rparr>) = (Some c2, None)
      \<longrightarrow> c1 = c2 \<and> baseURL c1 = strings_TrimRight b ''/''
          \<and> doRequest env c1 meth path rb w = doRequest env c2 meth path rb w
          \<and> call_raw env c1 ctx k w = call_raw env c2 ctx k w
          \<and> call_filt env c1 ctx kf w = call_filt env c2 ctx kf w)
   \<and> (NewClient_hmac (config_h\<lparr>BaseURL_hmac := b\<rparr>) = (Some h1, None)
        \<and> NewClient_hmac (config_h\<lparr>BaseURL_hmac := b @ ''/''\<rparr>) = (Some h2, None)
      \<longrightarrow> h1 = h2
          \<and> (\<exists>hc. client h1 = hmac_NewClient hc
                  \<and> hmac_Config_BaseURL hc = strings_TrimRight b ''/'')
          \<and> call_hmac env h1 ctx k w = call_hmac env h2 ctx k w)
   \<and> (b \<noteq> [] \<longrightarrow>
        (\<exists>c. NewClient (config\<lparr>BaseURL := b\<rparr>) = (Some c, None)
            \<and> NewClient (config\<lparr>BaseURL := b @ ''/''\<rparr>) = (Some c, None)))
   \<and> (b \<noteq> [] \<and> HMACSecret config_h \<noteq> [] \<longrightarrow>
        (\<exists>h. NewClient_hmac (config_h\<lparr>BaseURL_hmac := b\<rparr>) = (Some h, None)
            \<and> NewClient_hmac (config_h\<lparr>BaseURL_hmac := b @ ''/''\<rparr>) = (Some h, None)))"
proof (intro conjI impI)
  show "strings_TrimRight (b @ ''/'') ''/'' = strings_TrimRight b ''/''"
    by (rule TrimRight_slash)
  show "strings_TrimRight b ''/'' = [] \<or> last (strings_TrimRight b ''/'') \<noteq> CHR ''/''"
    using TrimRight_no_trailing [of b "''/''"] by simp
next
  assume a: "NewClient (config\<lparr>BaseURL := b\<rparr>) = (Some c1, None)
    \<and> NewClient (config\<lparr>BaseURL := b @ ''/''\<rparr>) = (Some c2, None)"
  then have eq: "c1 = c2" and base: "baseURL c1 = strings_TrimRight b ''/''"
    by (auto simp: NewClient_def Let_def TrimRight_slash split: if_splits)
  show "c1 = c2" by (rule eq)
  show "baseURL c1 = strings_TrimRight b ''/''" by (rule base)
  show "doRequest env c1 meth path rb w = doRequest env c2 meth path rb w"
    by (simp add: eq)
  show "call_raw env c1 ctx k w = call_raw env c2 ctx k w"
    by (simp add: eq)
  show "call_filt env c1 ctx kf w = call_filt env c2 ctx kf w"
    by (simp add: eq)
next
  assume a: "NewClient_hmac (config_h\<lparr>BaseURL_hmac := b\<rparr>) = (Some h1, None)
    \<and> NewClient_hmac (config_h\<lparr>BaseURL_hmac := b @ ''/''\<rparr>) = (Some h2, None)"
  then have eq: "h1 = h2"
    and base: "\<exists>hc. client h1 = hmac_NewClient hc
      \<and> hmac_Config_BaseURL hc = strings_TrimRight b ''/''"
    by (auto simp: NewClient_hmac_def Let_def TrimRight_slash split: if_splits)
  show "h1 = h2" by (rule eq)
  show "\<exists>hc. client h1 = hmac_NewClient hc
      \<and> hmac_Config_BaseURL hc = strings_TrimRight b ''/''"
    by (rule base)
  show "call_hmac env h1 ctx k w = call_hmac env h2 ctx k w"
    by (simp add: eq)
next
  assume "b \<noteq> []"
  then show "\<exists>c. NewClient (config\<lparr>BaseURL := b\<rparr>) = (Some c, None)
      \<and> NewClient (config\<lparr>BaseURL := b @ ''/''\<rparr>) = (Some c, None)"
    by (simp add: NewClient_def Let_def TrimRight_slash)
next
  assume "b \<noteq> [] \<and> HMACSecret config_h \<noteq> []"
  then show "\<exists>h. NewClient_hmac (config_h\<lparr>BaseURL_hmac := b\<rparr>) = (Some h, None)
      \<and> NewClient_hmac (config_h\<lparr>BaseURL_hmac := b @ ''/''\<rparr>) = (Some h, None)"
    by (simp add: NewClient_hmac_def Let_def TrimRight_slash)
qed

lemma sample_NewClient:
  "NewClient \<lparr>BaseURL = ''http://h:1'', Timeout = 0\<rparr> = (Some sample_client, None)"
  "NewClient \<lparr>BaseURL = ''http://h:1/'', Timeout = 0\<rparr> = (Some sample_client, None)"
  by (simp_all add: NewClient_def strings_TrimRight_def defaultTimeout_def sample_client_def)

theorem trailing_slash_is_stripped_witness:
  "fst (NewClient \<lparr>BaseURL = ''http://h:1'', Timeout = 0\<rparr>)
     = fst (NewClient \<lparr>BaseURL = ''http://h:1/'', Timeout = 0\<rparr>)
   \<and> (\<exists>c. fst (NewClient \<lparr>BaseURL = ''http://h:1/'', Timeout = 0\<rparr>) = Some c
          \<and> baseURL c = ''http://h:1'')"
proof -
  let ?cfg = "\<lparr>BaseURL = ''http://h:1'', Timeout = 0\<rparr>"
  have a: "NewClient (?cfg\<lparr>BaseURL := ''http://h:1''\<rparr>) = (Some sample_client, None)"
    and b: "NewClient (?cfg\<lparr>BaseURL := ''http://h:1'' @ ''/''\<rparr>) = (Some sample_client, None)"
    using sample_NewClient by simp_all
  from trailing_slash_is_stripped
         [where b = "''http://h:1''" and config = ?cfg and ?c1.0 = sample_client
            and ?c2.0 = sample_client] a b
  have "baseURL sample_client = strings_TrimRight ''http://h:1'' ''/''"
    by blast
  then have "baseURL sample_client = ''http://h:1''"
    by (simp add: strings_TrimRight_def)
  with sample_NewClient show ?thesis by simp
qed

text \<open>
  C8. \<open>NewClient\<close> returns no client and the error \<open>base URL is required\<close> when the base
  URL is empty; in the HMAC revision it returns no client and the error
  \<open>HMAC secret is required\<close> when the base URL is not empty and the secret is; on every
  other configuration it returns a client and no error. The failing calls return before
  the HTTP client or the HMAC client is made: no client comes back.
\<close>

theorem NewClient_fails_only_without_required_fields:
  "(BaseURL config = [] \<longrightarrow>
      NewClient config = (None, Some (Errorf ''base URL is required'')))
   \<and> (BaseURL config \<noteq> [] \<longrightarrow> (\<exists>c. NewClient config = (Some c, None)))
   \<and> (BaseURL_hmac config_h = [] \<longrightarrow>
      NewClient_hmac config_h = (None, Some (Errorf ''base URL is required'')))
   \<and> (BaseURL_hmac config_h \<noteq> [] \<and> HMACSecret config_h = [] \<longrightarrow>
      NewClient_hmac config_h = (None, Some (Errorf ''HMAC secret is required'')))
   \<and> (BaseURL_hmac config_h \<noteq> [] \<and> HMACSecret config_h \<noteq> [] \<longrightarrow>
      (\<exists>c. NewClient_hmac config_h = (Some c, None)))"
  by (simp add: NewClient_def NewClient_hmac_def Let_def)

theorem NewClient_fails_only_without_required_fields_witness:
  "NewClient \<lparr>BaseURL = [], Timeout = 5\<rparr> = (None, Some (Errorf ''base URL is required''))
   \<and> (\<exists>c. NewClient \<lparr>BaseURL = ''http://h:1'', Timeout = 5\<rparr> = (Some c, None))
   \<and> NewClient_hmac \<lparr>BaseURL_hmac = [], HMACSecret = [], Timeout_hmac = 5\<rparr>
       = (None, Some (Errorf ''base URL is required''))
   \<and> NewClient_hmac \<lparr>BaseURL_hmac = ''http://h:1'', HMACSecret = [], Timeout_hmac = 5\<rparr>
       = (None, Some (Errorf ''HMAC secret is required''))
   \<and> (\<exists>c. NewClient_hmac
            \<lparr>BaseURL_hmac = ''http://h:1'', HMACSecret = ''s3cret'', Timeout_hmac = 5\<rparr>
          = (Some c, None))"
  using NewClient_fails_only_without_required_fields
          [where config = "\<lparr>BaseURL = [], Timeout = 5\<rparr>"
             and config_h = "\<lparr>BaseURL_hmac = [], HMACSecret = [], Timeout_hmac = 5\<rparr>"]
        NewClient_fails_only_without_required_fields
          [where config = "\<lparr>BaseURL = ''http://h:1'', Timeout = 5\<rparr>"
             and config_h =
               "\<lparr>BaseURL_hmac = ''http://h:1'', HMACSecret = [], Timeout_hmac = 5\<rparr>"]
        NewClient_fails_only_without_required_fields
          [where config = "\<lparr>BaseURL = ''http://h:1'', Timeout = 5\<rparr>"
             and config_h =
               "\<lparr>BaseURL_hmac = ''http://h:1'', HMACSecret = ''s3cret'', Timeout_hmac = 5\<rparr>"]
  by simp

text \<open>
  C10. When \<open>NewClient\<close> returns a client, the timeout of the HTTP client (of the HMAC
  client's configuration, in the HMAC revision) is the default of ten seconds if the
  configured timeout is zero, and the configured timeout otherwise; a negative timeout
  is passed on as it is.
\<close>

theorem NewClient_defaults_only_zero_timeout:
  "defaultTimeout = 10 * 10 ^ 9
   \<and> (BaseURL config \<noteq> [] \<longrightarrow>
        (\<exists>c. NewClient config = (Some c, None)
            \<and> Client_Timeout (httpClient c) =
                (if Timeout config = 0 then defaultTimeout else Timeout config)))
   \<and> (BaseURL config \<noteq> [] \<and> Timeout config < 0 \<longrightarrow>
        (\<exists>c. NewClient config = (Some c, None)
            \<and> Client_Timeout (httpClient c) = Timeout config))
   \<and> (BaseURL_hmac config_h \<noteq> [] \<and> HMACSecret config_h \<noteq> [] \<longrightarrow>
        (\<exists>hc. NewClient_hmac config_h = (Some \<lparr>client = hmac_NewClient hc\<rparr>, None)
            \<and> hmac_Config_Timeout hc =
                (if Timeout_hmac config_h = 0 then defaultTimeout else Timeout_hmac config_h)))
   \<and> (BaseURL_hmac config_h \<noteq> [] \<and> HMACSecret config_h \<noteq> [] \<and> Timeout_hmac config_h < 0
      \<longrightarrow> (\<exists>hc. NewClient_hmac config_h = (Some \<lparr>client = hmac_NewClient hc\<rparr>, None)
            \<and> hmac_Config_Timeout hc = Timeout_hmac config_h))"
  by (simp add: NewClient_def NewClient_hmac_def Let_def defaultTimeout_def)

theorem NewClient_defaults_only_zero_timeout_witness:
  "(\<exists>c. NewClient \<lparr>BaseURL = ''http://h:1'', Timeout = - 5\<rparr> = (Some c, None)
        \<and> Client_Timeout (httpClient c) = - 5)
   \<and> (\<exists>c. NewClient \<lparr>BaseURL = ''http://h:1'', Timeout = 0\<rparr> = (Some c, None)
        \<and> Client_Timeout (httpClient c) = 10000000000)
   \<and> (\<exists>hc. NewClient_hmac
             \<lparr>BaseURL_hmac = ''http://h:1'', HMACSecret = ''s3cret'', Timeout_hmac = - 5\<rparr>
           = (Some \<lparr>client = hmac_NewClient hc\<rparr>, None)
        \<and> hmac_Config_Timeout hc = - 5)"
  using NewClient_defaults_only_zero_timeout
          [where config = "\<lparr>BaseURL = ''http://h:1'', Timeout = - 5\<rparr>"
             and config_h =
               "\<lparr>BaseURL_hmac = ''http://h:1'', HMACSecret = ''s3cret'', Timeout_hmac = - 5\<rparr>"]
        NewClient_defaults_only_zero_timeout
          [where config = "\<lparr>BaseURL = ''http://h:1'', Timeout = 0\<rparr>"
             and config_h =
               "\<lparr>BaseURL_hmac = ''http://h:1'', HMACSecret = ''s3cret'', Timeout_hmac = - 5\<rparr>"]
  by (simp add: defaultTimeout_def)

text \<open>
  C3, as the specification words it, fails: a negative page number is not at its zero
  value, yet the structured \<open>ListMails\<close> leaves \<open>page\<close> out, since it tests
  \<open>req.Page > 0\<close>. With \<open>Page = -1\<close> and every other field at its zero value the path
  is the bare \<open>/api/v1/mails\<close> after the base URL, where the specification's rule gives
  \<open>?page=-1\<close>.
\<close>

theorem ListMails_omits_negative_page:
  "Page \<lparr>Page = - 1, PerPage = 0, Service = [], Type = [], Status = []\<rparr> \<noteq> 0
   \<and> ListMails_path sample_client
         \<lparr>Page = - 1, PerPage = 0, Service = [], Type = [], Status = []\<rparr>
       = ''http://h:1/api/v1/mails''
   \<and> with_query (baseURL sample_client @ ''/api/v1/mails'')
         (ListMails_params_nonzero
            \<lparr>Page = - 1, PerPage = 0, Service = [], Type = [], Status = []\<rparr>)
       = ''http://h:1/api/v1/mails?page=-1''
   \<and> ListMails_path sample_client
         \<lparr>Page = - 1, PerPage = 0, Service = [], Type = [], Status = []\<rparr>
       \<noteq> with_query (baseURL sample_client @ ''/api/v1/mails'')
           (ListMails_params_nonzero
              \<lparr>Page = - 1, PerPage = 0, Service = [], Type = [], Status = []\<rparr>)"
  by (simp add: ListMails_path_def ListMails_params_nonzero_def with_query_def Let_def
        sample_client_def apiPathPrefix_def show_int_def show_nat.simps digit_char_def)

text \<open>
  C3, amended. The path the structured \<open>ListMails\<close> hands to \<open>do\<close> is the client's
  base URL, \<open>/api/v1/mails\<close> and, in the fixed order page, per_page, service, type,
  status, the parameters whose number is greater than zero or whose string is not empty,
  joined by \<open>&\<close> after a \<open>?\<close>; a string value is escaped by \<open>url.QueryEscape\<close>, whose
  output holds no \<open>&\<close>, \<open>=\<close>, \<open>#\<close> or space (a space becomes \<open>+\<close>). With every field
  at its zero value the path ends in \<open>/api/v1/mails\<close>, with no \<open>?\<close>; with page 2 and
  50 per page it ends in \<open>/api/v1/mails?page=2&per_page=50\<close>. That path is the URL of
  the one request the operation sends, once \<open>net/http\<close> has accepted it.
\<close>

theorem ListMails_path_keeps_positive_and_nonempty:
  "ListMails_path c req =
     with_query (baseURL c @ ''/api/v1/mails'') (ListMails_params_positive req)
   \<and> ListMails_path c \<lparr>Page = 0, PerPage = 0, Service = [], Type = [], Status = []\<rparr>
       = baseURL c @ ''/api/v1/mails''
   \<and> ListMails_path c \<lparr>Page = 2, PerPage = 50, Service = [], Type = [], Status = []\<rparr>
       = baseURL c @ ''/api/v1/mails?page=2&per_page=50''
   \<and> CHR ''&'' \<notin> set (QueryEscape s) \<and> CHR ''='' \<notin> set (QueryEscape s)
   \<and> CHR ''#'' \<notin> set (QueryEscape s) \<and> CHR '' '' \<notin> set (QueryEscape s)
   \<and> QueryEscape ''a b&c'' = ''a+b%26c''
   \<and> (http_NewRequest_check env ctx ''GET'' (ListMails_path c req) = None \<longrightarrow>
        snd (ListMails_filt env c ctx req w) =
          w @ [HttpDo (httpClient c) (GET_request ctx (ListMails_path c req))])"
proof -
  have gen: "ListMails_path cl r =
      with_query (baseURL cl @ ''/api/v1/mails'') (ListMails_params_positive r)" for cl r
    by (simp add: ListMails_path_def ListMails_params_positive_def with_query_def Let_def
          apiPathPrefix_def)
  have zero: "ListMails_path c \<lparr>Page = 0, PerPage = 0, Service = [], Type = [], Status = []\<rparr>
      = baseURL c @ ''/api/v1/mails''"
    by (simp add: gen ListMails_params_positive_def with_query_def)
  have two: "ListMails_path c \<lparr>Page = 2, PerPage = 50, Service = [], Type = [], Status = []\<rparr>
      = baseURL c @ ''/api/v1/mails?page=2&per_page=50''"
    by (simp add: gen ListMails_params_positive_def with_query_def show_int_def
          show_nat.simps digit_char_def)
  have esc: "CHR ''&'' \<notin> set (QueryEscape s) \<and> CHR ''='' \<notin> set (QueryEscape s)
      \<and> CHR ''#'' \<notin> set (QueryEscape s) \<and> CHR '' '' \<notin> set (QueryEscape s)"
    by (simp add: QueryEscape_no_ampersand QueryEscape_no_equals QueryEscape_no_hash
          QueryEscape_no_space)
  have ex: "QueryEscape ''a b&c'' = ''a+b%26c''"
    by (simp add: QueryEscape_def shouldEscape_def upperhex_def)
  have log: "http_NewRequest_check env ctx ''GET'' (ListMails_path c req) = None \<longrightarrow>
      snd (ListMails_filt env c ctx req w) =
        w @ [HttpDo (httpClient c) (GET_request ctx (ListMails_path c req))]"
    by (simp add: ListMails_filt_def Let_def finish_eq do_filt_log MethodGet_def
          GET_request_def)
  from gen [of c req] zero two esc ex log show ?thesis
    by (intro conjI) (erule conjunct1 conjunct2 | assumption | elim conjE)+
qed

theorem ListMails_path_keeps_positive_and_nonempty_witness:
  "ListMails_path sample_client
       \<lparr>Page = 2, PerPage = 50, Service = ''a b'', Type = [], Status = ''sent''\<rparr>
     = ''http://h:1/api/v1/mails?page=2&per_page=50&service=a+b&status=sent''
   \<and> snd (ListMails_filt sample_env sample_client Background
             \<lparr>Page = 2, PerPage = 50, Service = ''a b'', Type = [], Status = ''sent''\<rparr> [])
     = [HttpDo (httpClient sample_client)
          (GET_request Background
             ''http://h:1/api/v1/mails?page=2&per_page=50&service=a+b&status=sent'')]"
proof -
  let ?req = "\<lparr>Page = 2, PerPage = 50, Service = ''a b'', Type = [], Status = ''sent''\<rparr>"
  note inst = ListMails_path_keeps_positive_and_nonempty
    [where c = sample_client and req = ?req and env = sample_env and ctx = Background
       and w = "[]"]
  have "ListMails_path sample_client ?req =
      with_query (baseURL sample_client @ ''/api/v1/mails'') (ListMails_params_positive ?req)"
    using inst by blast
  then have a: "ListMails_path sample_client ?req
      = ''http://h:1/api/v1/mails?page=2&per_page=50&service=a+b&status=sent''"
    by (simp add: ListMails_params_positive_def with_query_def sample_client_def
          show_int_def show_nat.simps digit_char_def QueryEscape_def shouldEscape_def
          upperhex_def)
  have chk: "http_NewRequest_check sample_env Background ''GET''
      (ListMails_path sample_client ?req) = None"
    by (simp add: sample_env_def)
  have "snd (ListMails_filt sample_env sample_client Background ?req []) =
      [] @ [HttpDo (httpClient sample_client)
              (GET_request Background (ListMails_path sample_client ?req))]"
    using inst chk by blast
  with a show ?thesis by simp
qed

end
